theory Spec2Isabelle
  imports Main "HOL-Library.Word" "HOL-Library.Monad_Syntax"
begin

section \<open>Type discrimination without RTTI (openvino/core/type.hpp)\<close>

text \<open>
  \<^verbatim>\<open>struct DiscreteTypeInfo { const char* name; const char* version_id;
  const DiscreteTypeInfo* parent; ... }\<close>.
  A null \<^verbatim>\<open>version_id\<close> or \<^verbatim>\<open>parent\<close> is \<open>None\<close>.
\<close>

datatype DiscreteTypeInfo =
  DiscreteTypeInfo (name: string) (version_id: "string option")
    (parent: "DiscreteTypeInfo option")

text \<open>
  Modelled from the spec: \<^verbatim>\<open>DiscreteTypeInfo::operator==\<close> and
  \<^verbatim>\<open>DiscreteTypeInfo::is_castable\<close> are declared in type.hpp and defined in a
  file that is not part of the sources. The spec describes the query as "succeeds iff
  exact-or-derived type matches", "a polymorphic node kind tag check plus an ancestor-tag
  walk": two tags are the same when name and version agree, and a type is castable to a
  target when its own tag or the tag of one of its ancestors is the target's.
\<close>

definition type_info_eq :: "DiscreteTypeInfo \<Rightarrow> DiscreteTypeInfo \<Rightarrow> bool" where
  "type_info_eq a b = (version_id a = version_id b \<and> name a = name b)"

fun is_castable :: "DiscreteTypeInfo \<Rightarrow> DiscreteTypeInfo \<Rightarrow> bool" where
  "is_castable (DiscreteTypeInfo n v p) target_type =
     (type_info_eq (DiscreteTypeInfo n v p) target_type \<or>
      (case p of None \<Rightarrow> False | Some q \<Rightarrow> is_castable q target_type))"

text \<open>
  A C++ class with its direct base classes. \<open>is_base_of b d\<close> is
  \<^verbatim>\<open>std::is_base_of_v<B, D>\<close> with \<open>B\<close> given by name: a class is a base of itself
  and of everything derived from it.
\<close>

datatype cpp_class = CppClass (class_name: string) (bases: "cpp_class list")

fun is_base_of :: "string \<Rightarrow> cpp_class \<Rightarrow> bool" where
  "is_base_of b (CppClass n bs) = (n = b \<or> list_ex (is_base_of b) bs)"

text \<open>
  An object that a \<^verbatim>\<open>Value\<close> handle points to: what its virtual
  \<^verbatim>\<open>get_type_info()\<close> returns, and its C++ dynamic type. The two are independent
  pieces of data: the header describes the tags as "a type system without inheritance".
\<close>

record object =
  get_type_info :: DiscreteTypeInfo
  dynamic_class :: cpp_class

text \<open>
  The template parameter \<^verbatim>\<open>Type\<close>: its static tag
  \<^verbatim>\<open>Type::get_type_info_static()\<close> and the C++ class it is.
\<close>

record cpp_type =
  get_type_info_static :: DiscreteTypeInfo
  static_class :: cpp_class

text \<open>
  A raw pointer or a \<^verbatim>\<open>shared_ptr\<close>. Reading through a null pointer is undefined
  behaviour, which \<open>deref\<close> reports as \<open>None\<close>; contextual conversion to bool is
  \<open>to_bool\<close>.
\<close>

datatype 'a pointer = nullptr | Ptr 'a

fun deref :: "'a pointer \<Rightarrow> 'a option" where
  "deref nullptr = None"
| "deref (Ptr a) = Some a"

fun to_bool :: "'a pointer \<Rightarrow> bool" where
  "to_bool nullptr = False"
| "to_bool (Ptr a) = True"

text \<open>
  \<^verbatim>\<open>return value && value->get_type_info().is_castable(Type::get_type_info_static());\<close>
  The right operand of \<^verbatim>\<open>&&\<close> is evaluated only when the left one is true. The result
  is \<open>None\<close> when the evaluation reads through a null pointer.
\<close>

definition is_type :: "cpp_type \<Rightarrow> object pointer \<Rightarrow> bool option" where
  "is_type T v =
     (if to_bool v
      then do { obj \<leftarrow> deref v;
                Some (is_castable (get_type_info obj) (get_type_info_static T)) }
      else Some False)"

text \<open>
  \<^verbatim>\<open>use_ov_dynamic_cast<T>()\<close> is
  \<^verbatim>\<open>std::is_base_of_v<ov::frontend::ConversionExtensionBase, T>\<close>.
\<close>

definition use_ov_dynamic_cast :: "cpp_type \<Rightarrow> bool" where
  "use_ov_dynamic_cast T =
     is_base_of ''ov::frontend::ConversionExtensionBase'' (static_class T)"

text \<open>
  \<^verbatim>\<open>std::dynamic_pointer_cast<Type>(value)\<close>: the C++ run-time cast. It is empty for an
  empty pointer, and otherwise looks at the dynamic class of the object only.
\<close>

definition dynamic_pointer_cast :: "cpp_type \<Rightarrow> object pointer \<Rightarrow> object pointer" where
  "dynamic_pointer_cast T v =
     (case v of
        nullptr \<Rightarrow> nullptr
      | Ptr obj \<Rightarrow>
          if is_base_of (class_name (static_class T)) (dynamic_class obj) then Ptr obj
          else nullptr)"

text \<open>
  \<^verbatim>\<open>AsTypePtr<std::shared_ptr<In>>::call<Type>(value)\<close>:
  \<^verbatim>\<open>ov::is_type<Type>(value) ? std::static_pointer_cast<Type>(value) : std::shared_ptr<Type>()\<close>.
\<close>

definition AsTypePtr_call :: "cpp_type \<Rightarrow> object pointer \<Rightarrow> object pointer option" where
  "AsTypePtr_call T v = do { b \<leftarrow> is_type T v; Some (if b then v else nullptr) }"

text \<open>
  \<^verbatim>\<open>if constexpr (use_ov_dynamic_cast<Type>()) return AsTypePtr<Value>::call<Type>(value);
  else return std::dynamic_pointer_cast<Type>(value);\<close>
\<close>

definition as_type_ptr :: "cpp_type \<Rightarrow> object pointer \<Rightarrow> object pointer option" where
  "as_type_ptr T v =
     (if use_ov_dynamic_cast T then AsTypePtr_call T v
      else Some (dynamic_pointer_cast T v))"

section \<open>The IR as the fusion rules see it\<close>

text \<open>
  The node and model classes, the pattern matcher and the graph utilities are external
  collaborators of fuse_rotary_positional_embeddings.cpp and are not part of the sources.
  The definitions of this section model the part of their interface that the callbacks
  call. A node is identified by its position in the list of nodes of the model (its
  address); an \<^verbatim>\<open>Output<Node>\<close> is a node together with an output port.
\<close>

type_synonym node_id = nat
type_synonym Output = "node_id \<times> nat"

text \<open>
  Modelled from the spec: \<^verbatim>\<open>op::internal::RoPE::Config\<close> is declared in
  ov_ops/rotary_positional_embeddings.hpp, which is not part of the sources. Its fields are
  the "closed set of fields" of the spec's Fusion Configuration: the rotary dimension
  count, head count and size, the slice window, the interleave flag, the input and output
  transpose flags, the argument index of the gather-by-position input, and the
  dialect flags. \<^verbatim>\<open>size_t\<close> is 64 bits wide, \<^verbatim>\<open>int\<close> 32 bits.
  A default-constructed configuration has every number 0 and every flag false.
\<close>

record Config =
  slice_start :: "64 word"
  slice_stop :: "64 word"
  input_trans0213 :: bool
  output_trans0213 :: bool
  is_interleaved :: bool
  rotary_ndims :: "64 word"
  is_chatglm :: bool
  support_2d_rope :: bool
  is_qwen :: bool
  use_rope_cache :: bool
  head_cnt :: "64 word"
  head_size :: "64 word"
  gather_position_arg_id :: "32 word"

definition default_Config :: Config where
  "default_Config =
     \<lparr>slice_start = 0, slice_stop = 0, input_trans0213 = False, output_trans0213 = False,
      is_interleaved = False, rotary_ndims = 0, is_chatglm = False, support_2d_rope = False,
      is_qwen = False, use_rope_cache = False, head_cnt = 0, head_size = 0,
      gather_position_arg_id = 0\<rparr>"

text \<open>
  What the callbacks read of a \<^verbatim>\<open>Constant\<close>: \<^verbatim>\<open>get_element_type()\<close>,
  \<^verbatim>\<open>get_shape()\<close>, the bytes behind \<^verbatim>\<open>get_data_ptr()\<close> (there are
  \<^verbatim>\<open>get_byte_size()\<close> of them) and the result of \<^verbatim>\<open>cast_vector<int64_t>()\<close>.
\<close>

record Constant_data =
  get_element_type :: string
  get_shape :: "nat list"
  get_data :: "8 word list"
  cast_vector_int64 :: "64 word list"

definition get_byte_size :: "Constant_data \<Rightarrow> nat" where
  "get_byte_size c = length (get_data c)"

text \<open>
  \<^verbatim>\<open>memcmp(a, b, n)\<close> is 0 when the first \<open>n\<close> bytes agree. Reading past the end of
  a buffer is undefined behaviour (\<open>None\<close>).
\<close>

definition memcmp_eq :: "8 word list \<Rightarrow> 8 word list \<Rightarrow> nat \<Rightarrow> bool option" where
  "memcmp_eq a b n =
     (if n \<le> length a \<and> n \<le> length b then Some (take n a = take n b) else None)"

text \<open>
  The operator kinds that the callbacks tell apart with \<^verbatim>\<open>as_type_ptr\<close> and
  \<^verbatim>\<open>is_type\<close>: the fused \<^verbatim>\<open>op::internal::RoPE\<close> with its configuration,
  \<^verbatim>\<open>v0::Constant\<close>, \<^verbatim>\<open>v1::Transpose\<close>, \<^verbatim>\<open>opset1::ShapeOf\<close> and
  \<^verbatim>\<open>opset1::Reshape\<close>; every other operator is \<open>Other\<close> with its name.
\<close>

datatype Op =
    RoPE Config
  | Constant Constant_data
  | Transpose
  | ShapeOf
  | Reshape
  | Other string

text \<open>
  A node: its operator, the outputs its inputs read (\<^verbatim>\<open>input_value(i)\<close>), its friendly
  name and the provenance record written by \<^verbatim>\<open>copy_runtime_info\<close>.
\<close>

record Node =
  node_op :: Op
  inputs :: "Output list"
  friendly_name :: string
  rt_info :: "node_id list"

text \<open>
  The state a matcher pass works on: the nodes of the model and the nodes handed to
  \<^verbatim>\<open>register_new_node\<close>. A node that a rewrite has bypassed stays in the list,
  without consumers; in C++ it is freed when the last handle to it goes away.
\<close>

record pass_state =
  nodes :: "Node list"
  new_nodes :: "node_id list"

definition get_node :: "pass_state \<Rightarrow> node_id \<Rightarrow> Node option" where
  "get_node st n = (if n < length (nodes st) then Some (nodes st ! n) else None)"

definition update_node :: "node_id \<Rightarrow> (Node \<Rightarrow> Node) \<Rightarrow> pass_state \<Rightarrow> pass_state" where
  "update_node n f st = st\<lparr>nodes := (nodes st)[n := f (nodes st ! n)]\<rparr>"

text \<open>\<^verbatim>\<open>as_type_ptr<op::internal::RoPE>(node)\<close>, then \<^verbatim>\<open>get_config()\<close>.\<close>

fun as_RoPE :: "Node \<Rightarrow> Config option" where
  "as_RoPE n = (case node_op n of RoPE config \<Rightarrow> Some config | _ \<Rightarrow> None)"

fun as_Constant :: "Node \<Rightarrow> Constant_data option" where
  "as_Constant n = (case node_op n of Constant c \<Rightarrow> Some c | _ \<Rightarrow> None)"

fun is_Transpose :: "Node \<Rightarrow> bool" where
  "is_Transpose n = (case node_op n of Transpose \<Rightarrow> True | _ \<Rightarrow> False)"

fun is_ShapeOf :: "Node \<Rightarrow> bool" where
  "is_ShapeOf n = (case node_op n of ShapeOf \<Rightarrow> True | _ \<Rightarrow> False)"

fun is_Reshape :: "Node \<Rightarrow> bool" where
  "is_Reshape n = (case node_op n of Reshape \<Rightarrow> True | _ \<Rightarrow> False)"

text \<open>\<^verbatim>\<open>node->input_value(i)\<close>; an index past the inputs raises.\<close>

definition input_value :: "Node \<Rightarrow> nat \<Rightarrow> Output option" where
  "input_value n i = (if i < length (inputs n) then Some (inputs n ! i) else None)"

text \<open>
  \<^verbatim>\<open>output.get_target_inputs()\<close>: the inputs (consumer node, input index) that read
  the output.
\<close>

definition get_target_inputs :: "pass_state \<Rightarrow> Output \<Rightarrow> (node_id \<times> nat) list" where
  "get_target_inputs st out =
     concat (map (\<lambda>c. map (\<lambda>j. (c, j))
                        (filter (\<lambda>j. inputs (nodes st ! c) ! j = out)
                                [0 ..< length (inputs (nodes st ! c))]))
                 [0 ..< length (nodes st)])"

text \<open>
  Modelled from the spec: the two mutation primitives of the IR are not part of the
  sources. \<^verbatim>\<open>ov::replace_node(A, B)\<close> is "replace node A's entire output with node B,
  rewiring all of A's external consumers to B": every input that reads an output of A
  reads the same output of B afterwards. \<^verbatim>\<open>set_argument(N, v)\<close> is "set node A's Nth
  input argument to a given value" (the argument one past the last one is appended), and
  \<^verbatim>\<open>input.replace_source_output(v)\<close> does the same for one input of a consumer.
\<close>

definition rewire :: "node_id \<Rightarrow> node_id \<Rightarrow> Output \<Rightarrow> Output" where
  "rewire a b out = (if fst out = a then (b, snd out) else out)"

definition replace_node :: "node_id \<Rightarrow> node_id \<Rightarrow> pass_state \<Rightarrow> pass_state" where
  "replace_node a b st =
     st\<lparr>nodes := map (\<lambda>n. n\<lparr>inputs := map (rewire a b) (inputs n)\<rparr>) (nodes st)\<rparr>"

definition set_argument :: "nat \<Rightarrow> Output \<Rightarrow> Node \<Rightarrow> Node" where
  "set_argument i v n =
     (if i < length (inputs n) then n\<lparr>inputs := (inputs n)[i := v]\<rparr>
      else n\<lparr>inputs := inputs n @ [v]\<rparr>)"

definition replace_source_output :: "node_id \<times> nat \<Rightarrow> Output \<Rightarrow> pass_state \<Rightarrow> pass_state" where
  "replace_source_output inp v st =
     update_node (fst inp) (\<lambda>n. n\<lparr>inputs := (inputs n)[snd inp := v]\<rparr>) st"

text \<open>
  Modelled from the spec: \<^verbatim>\<open>ov::copy_runtime_info(from, to)\<close> is "an append-only
  metadata operation": it attaches to the new node a merged record of the source nodes it
  was produced from.
\<close>

definition copy_runtime_info :: "node_id list \<Rightarrow> node_id \<Rightarrow> pass_state \<Rightarrow> pass_state" where
  "copy_runtime_info from to st = update_node to (\<lambda>n. n\<lparr>rt_info := rt_info n @ from\<rparr>) st"

text \<open>
  \<^verbatim>\<open>std::make_shared<op::internal::RoPE>(new_args, config)\<close>: the new node gets the next
  free address; the state with the node added and the address are returned.
\<close>

definition make_RoPE :: "Output list \<Rightarrow> Config \<Rightarrow> pass_state \<Rightarrow> pass_state \<times> node_id" where
  "make_RoPE new_args config st =
     (st\<lparr>nodes := nodes st @
           [\<lparr>node_op = RoPE config, inputs = new_args, friendly_name = [], rt_info = []\<rparr>]\<rparr>,
      length (nodes st))"

definition set_friendly_name :: "node_id \<Rightarrow> string \<Rightarrow> pass_state \<Rightarrow> pass_state" where
  "set_friendly_name n s st = update_node n (\<lambda>x. x\<lparr>friendly_name := s\<rparr>) st"

definition register_new_node :: "node_id \<Rightarrow> pass_state \<Rightarrow> pass_state" where
  "register_new_node n st = st\<lparr>new_nodes := new_nodes st @ [n]\<rparr>"

subsection \<open>Symbols and the result of a match\<close>

text \<open>
  Modelled from the spec: the value a symbol resolves to (\<^verbatim>\<open>PatternSymbolValue\<close>) is
  declared with the matcher, outside the sources. A symbol is "a named unknown bound
  during one match attempt, representing a dimension or scalar attribute value"; variadic
  symbols are "full lists"; a dimension that is "not statically known" stays dynamic
  (it only carries the identity of its shape symbol). \<open>SymUnset\<close> is the value of a name
  that the match did not bind. \<^verbatim>\<open>int64_t\<close> values are 64-bit words.
\<close>

typedecl float64

datatype PatternSymbolValue =
    SymUnset
  | SymInt "64 word"
  | SymDouble float64
  | SymDynamic nat
  | SymGroup "PatternSymbolValue list"

fun is_dynamic :: "PatternSymbolValue \<Rightarrow> bool" where
  "is_dynamic (SymDynamic s) = True"
| "is_dynamic _ = False"

fun is_group :: "PatternSymbolValue \<Rightarrow> bool" where
  "is_group (SymGroup vs) = True"
| "is_group _ = False"

fun is_integer :: "PatternSymbolValue \<Rightarrow> bool" where
  "is_integer (SymInt v) = True"
| "is_integer _ = False"

definition is_static :: "PatternSymbolValue \<Rightarrow> bool" where
  "is_static v = (\<not> is_dynamic v \<and> \<not> is_group v)"

text \<open>\<^verbatim>\<open>v.i()\<close> and \<^verbatim>\<open>v.g()\<close> raise when the value holds something else.\<close>

fun i :: "PatternSymbolValue \<Rightarrow> 64 word option" where
  "i (SymInt v) = Some v"
| "i _ = None"

fun g :: "PatternSymbolValue \<Rightarrow> PatternSymbolValue list option" where
  "g (SymGroup vs) = Some vs"
| "g _ = None"

text \<open>\<^verbatim>\<open>vec[k]\<close> on a \<^verbatim>\<open>std::vector\<close>: undefined past the end.\<close>

definition at_index :: "'a list \<Rightarrow> nat \<Rightarrow> 'a option" where
  "at_index xs k = (if k < length xs then Some (xs ! k) else None)"

text \<open>
  What a callback reads of the \<^verbatim>\<open>Matcher\<close> after a structural match:
  \<^verbatim>\<open>get_pattern_value_map()\<close> (keyed by the name of the pattern node in the source;
  \<^verbatim>\<open>at\<close> raises on a key that is not bound, \<^verbatim>\<open>count\<close> and \<^verbatim>\<open>find\<close> test it),
  \<^verbatim>\<open>get_match_root()\<close> and \<^verbatim>\<open>get_symbols()\<close>, and the
  \<^verbatim>\<open>PatternValidator\<close> constructed from it.
\<close>

text \<open>
  Modelled from the spec: \<^verbatim>\<open>PatternValidator\<close> of gen_pattern.hpp is not part of the
  sources. It re-checks the symbols of a match, "consistency across all its occurrences"
  (\<open>validator_ok\<close> is its conversion to bool), and gives the resolved value of a symbol
  by name (\<open>validator\<close>). It stores the values as \<^verbatim>\<open>double\<close>; the symbols read
  here are bound to integer constants and dimensions, so the model keeps the integer. A
  name the match did not bind reads as 0.
\<close>

record Matcher =
  get_pattern_value_map :: "string \<rightharpoonup> Output"
  get_match_root :: node_id
  get_symbols :: "string \<Rightarrow> PatternSymbolValue"
  validator_ok :: bool
  validator :: "string \<Rightarrow> int"

definition count :: "(string \<rightharpoonup> Output) \<Rightarrow> string \<Rightarrow> bool" where
  "count pattern_map k = (pattern_map k \<noteq> None)"

text \<open>
  \<^verbatim>\<open>static_cast<size_t>(d)\<close> and \<^verbatim>\<open>static_cast<int>(d)\<close> of a
  \<^verbatim>\<open>double\<close> holding an integer: the value, when the target type can represent it;
  undefined behaviour (\<open>None\<close>) otherwise.
\<close>

definition cast_size_t :: "int \<Rightarrow> 64 word option" where
  "cast_size_t d = (if 0 \<le> d \<and> d < 2 ^ 64 then Some (word_of_int d) else None)"

definition cast_int :: "int \<Rightarrow> 32 word option" where
  "cast_int d = (if - (2 ^ 31) \<le> d \<and> d < 2 ^ 31 then Some (word_of_int d) else None)"

section \<open>The fusion rules (fuse_rotary_positional_embeddings.cpp)\<close>

text \<open>
  Each callback takes the state of the pass and the matcher after a structural match, and
  returns the boolean the C++ callback returns together with the state it leaves. The
  result is \<open>None\<close> when the C++ raises or has undefined behaviour
  (\<^verbatim>\<open>pattern_map.at\<close> on a pattern node that is not bound, \<^verbatim>\<open>i()\<close> on a value
  that is not an integer, an index past the end). Shape and type inference
  (\<^verbatim>\<open>validate_and_infer_types\<close>) is out of the scope of the rules and leaves the
  modelled state as it is.
\<close>

subsection \<open>RoPEFusionFlux\<close>

text \<open>
  Modelled from the spec: the predicate \<^verbatim>\<open>shape_matches("[PRESERVED_DIMS..., head_size]")\<close>
  on the input \<open>x\<close> is evaluated by the matcher. It binds "an arbitrary-length,
  possibly-empty prefix" to \<^verbatim>\<open>PRESERVED_DIMS\<close> and "exactly one trailing dimension"
  to \<^verbatim>\<open>head_size\<close>. A dimension is a \<open>SymInt\<close> when it is static and a
  \<open>SymDynamic\<close> otherwise.
\<close>

definition shape_matches_PRESERVED_DIMS_head_size ::
  "PatternSymbolValue list \<Rightarrow> (string \<Rightarrow> PatternSymbolValue) \<Rightarrow> bool" where
  "shape_matches_PRESERVED_DIMS_head_size shape symbols =
     (shape \<noteq> [] \<and>
      symbols ''PRESERVED_DIMS'' = SymGroup (butlast shape) \<and>
      symbols ''head_size'' = last shape)"

definition RoPEFusionFlux_callback :: "pass_state \<Rightarrow> Matcher \<Rightarrow> (bool \<times> pass_state) option" where
  "RoPEFusionFlux_callback st m = do {
     let pattern_map = get_pattern_value_map m;
     let root = get_match_root m;
     let symbols = get_symbols m;
     preserved_dims \<leftarrow> g (symbols ''PRESERVED_DIMS'');
     num_heads \<leftarrow> at_index preserved_dims 1;
     let head_size_sym = symbols ''head_size'';
     if \<not> is_static num_heads \<or> \<not> is_static head_size_sym then Some (False, st)
     else do {
       num_heads_i \<leftarrow> i num_heads;
       head_size_i \<leftarrow> i head_size_sym;
       let config = default_Config;
       let config = config\<lparr>head_cnt := num_heads_i\<rparr>;
       let config = config\<lparr>head_size := head_size_i\<rparr>;
       let config = config\<lparr>rotary_ndims := head_size config\<rparr>;
       let config = config\<lparr>is_interleaved := True\<rparr>;
       let config = config\<lparr>output_trans0213 := False\<rparr>;
       x \<leftarrow> pattern_map ''x'';
       t_cos \<leftarrow> pattern_map ''t_cos'';
       t_sin \<leftarrow> pattern_map ''t_sin'';
       let new_args = [x, t_cos, t_sin];
       let old_node = root;
       old \<leftarrow> get_node st old_node;
       let (st, new_node) = make_RoPE new_args config st;
       let st = set_friendly_name new_node (friendly_name old) st;
       x1 \<leftarrow> pattern_map ''x1'';
       split \<leftarrow> pattern_map ''split'';
       x2 \<leftarrow> pattern_map ''x2'';
       x3 \<leftarrow> pattern_map ''x3'';
       y1 \<leftarrow> pattern_map ''y1'';
       y2 \<leftarrow> pattern_map ''y2'';
       result \<leftarrow> pattern_map ''result'';
       let st = copy_runtime_info (map fst [x1, split, x2, x3, y1, y2, result]) new_node st;
       let st = replace_node old_node new_node st;
       let st = register_new_node new_node st;
       Some (True, st)
     }
   }"

subsection \<open>RoPEFusionGPTNEOX\<close>

definition RoPEFusionGPTNEOX_callback ::
  "pass_state \<Rightarrow> Matcher \<Rightarrow> (bool \<times> pass_state) option" where
  "RoPEFusionGPTNEOX_callback st m = do {
     let pattern_map = get_pattern_value_map m;
     let root = get_match_root m;
     x_or_cos1 \<leftarrow> pattern_map ''x_or_cos1'';
     x \<leftarrow> pattern_map ''x'';
     x_or_cos2 \<leftarrow> pattern_map ''x_or_cos2'';
     case (if x_or_cos1 = x then Some x_or_cos2
           else if x_or_cos2 = x then Some x_or_cos1
           else None) of
       None \<Rightarrow> Some (False, st)
     | Some v_cos \<Rightarrow> do {
         let symbols = get_symbols m;
         let half_ndims = symbols ''half_ndims'';
         if \<not> is_integer half_ndims then Some (False, st)
         else do {
           half_ndims_i \<leftarrow> i half_ndims;
           let config = default_Config\<lparr>rotary_ndims := 2 * half_ndims_i\<rparr>;
           t_sin \<leftarrow> pattern_map ''t_sin'';
           let new_args = [x, v_cos, t_sin];
           let old_node = root;
           old \<leftarrow> get_node st old_node;
           let (st, new_node) = make_RoPE new_args config st;
           let st = set_friendly_name new_node (friendly_name old) st;
           x2neg \<leftarrow> pattern_map ''x2neg'';
           x_rotate_half \<leftarrow> pattern_map ''x_rotate_half'';
           mul_cos \<leftarrow> pattern_map ''mul_cos'';
           mul_sin \<leftarrow> pattern_map ''mul_sin'';
           result \<leftarrow> pattern_map ''result'';
           let st = copy_runtime_info (map fst [x2neg, x_rotate_half, mul_cos, mul_sin, result])
                      new_node st;
           let st = replace_node old_node new_node st;
           let st = register_new_node new_node st;
           Some (True, st)
         }
       }
   }"

text \<open>
  The same model with the two operands of one node written in the other order
  (\<^verbatim>\<open>mul(cos, x)\<close> for \<^verbatim>\<open>mul(x, cos)\<close>), and the match of it: the two wildcards of
  \<^verbatim>\<open>mul_cos\<close> are bound to the operands in the order they are written.
\<close>

definition swap_operands :: "node_id \<Rightarrow> pass_state \<Rightarrow> pass_state" where
  "swap_operands n st = update_node n (\<lambda>x. x\<lparr>inputs := rev (inputs x)\<rparr>) st"

definition swap_x_or_cos :: "Matcher \<Rightarrow> Matcher" where
  "swap_x_or_cos m =
     m\<lparr>get_pattern_value_map :=
         (get_pattern_value_map m)
           (''x_or_cos1'' := get_pattern_value_map m ''x_or_cos2'',
            ''x_or_cos2'' := get_pattern_value_map m ''x_or_cos1'')\<rparr>"

subsection \<open>RoPEFusionPreprocess\<close>

definition RoPEFusionPreprocess_callback ::
  "pass_state \<Rightarrow> Matcher \<Rightarrow> (bool \<times> pass_state) option" where
  "RoPEFusionPreprocess_callback st m =
     (if \<not> validator_ok m then Some (False, st)
      else do {
        let pattern_map = get_pattern_value_map m;
        let root = get_match_root m;
        root_node \<leftarrow> get_node st root;
        case as_RoPE root_node of
          None \<Rightarrow> Some (False, st)
        | Some config \<Rightarrow> do {
            r \<leftarrow>
              (if count pattern_map ''input_to_slice'' then do {
                 slice_start_v \<leftarrow> cast_size_t (validator m ''slice_start'');
                 let config = config\<lparr>slice_start := slice_start_v\<rparr>;
                 slice_stop_v \<leftarrow> cast_size_t (validator m ''slice_stop'');
                 let config = config\<lparr>slice_stop := slice_stop_v\<rparr>;
                 let config = config\<lparr>input_trans0213 := True\<rparr>;
                 input_to_slice \<leftarrow> pattern_map ''input_to_slice'';
                 Some (Some (config, update_node root (set_argument 0 input_to_slice) st))
               }
               else if count pattern_map ''input_to_trans'' then do {
                 let config = config\<lparr>input_trans0213 := True\<rparr>;
                 input_to_trans \<leftarrow> pattern_map ''input_to_trans'';
                 Some (Some (config, update_node root (set_argument 0 input_to_trans) st))
               }
               else Some None);
            case r of
              None \<Rightarrow> Some (False, st)
            | Some (config, st) \<Rightarrow> do {
                let st = update_node root (\<lambda>n. n\<lparr>node_op := RoPE config\<rparr>) st;
                let st = register_new_node root st;
                Some (True, st)
              }
          }
      })"

subsection \<open>RoPEFusionGPTJ\<close>

text \<open>
  The block "Fuse output transpose to Rope": when the output of the root has exactly one
  target input, and the node of that input is a \<^verbatim>\<open>Transpose\<close> whose second input is
  a \<^verbatim>\<open>Constant\<close> holding \<open>[0, 2, 1, 3]\<close>, the flag is set, the transpose joins
  \<^verbatim>\<open>rt_from\<close> and becomes the node to replace. The result is the triple
  (\<^verbatim>\<open>config\<close>, \<^verbatim>\<open>rt_from\<close>, \<^verbatim>\<open>root\<close>) after the block.
\<close>

definition fuse_output_transpose ::
  "pass_state \<Rightarrow> Config \<Rightarrow> node_id list \<Rightarrow> node_id \<Rightarrow> (Config \<times> node_id list \<times> node_id) option"
  where
  "fuse_output_transpose st config rt_from root = do {
     let root_target_inputs = get_target_inputs st (root, 0);
     if length root_target_inputs = 1 then do {
       let target_node = fst (hd root_target_inputs);
       target \<leftarrow> get_node st target_node;
       if is_Transpose target then do {
         axes \<leftarrow> input_value target 1;
         axes_node \<leftarrow> get_node st (fst axes);
         case as_Constant axes_node of
           Some axes_const \<Rightarrow>
             if cast_vector_int64 axes_const = [0, 2, 1, 3]
             then Some (config\<lparr>output_trans0213 := True\<rparr>, rt_from @ [target_node], target_node)
             else Some (config, rt_from, root)
         | None \<Rightarrow> Some (config, rt_from, root)
       }
       else Some (config, rt_from, root)
     }
     else Some (config, rt_from, root)
   }"

text \<open>
  The loop that moves a \<^verbatim>\<open>ShapeOf\<close> from the output of \<^verbatim>\<open>rotary_emb\<close> to the
  data input of the fused node, over the target inputs read before the loop.
\<close>

definition move_ShapeOf :: "Output \<Rightarrow> (node_id \<times> nat) list \<Rightarrow> pass_state \<Rightarrow> pass_state" where
  "move_ShapeOf view_Reshape target_inputs st =
     fold (\<lambda>input st. if is_ShapeOf (nodes st ! fst input)
                        then replace_source_output input view_Reshape st else st)
          target_inputs st"

definition RoPEFusionGPTJ_callback :: "pass_state \<Rightarrow> Matcher \<Rightarrow> (bool \<times> pass_state) option" where
  "RoPEFusionGPTJ_callback st m = do {
     let pattern_map = get_pattern_value_map m;
     let root = get_match_root m;
     let symbols = get_symbols m;
     let ndims = symbols ''ndims'';
     let ndims_over_2 = symbols ''ndims/2'';
     mismatch \<leftarrow>
       (if \<not> is_integer ndims \<or> \<not> is_integer ndims_over_2 then Some True
        else do { a \<leftarrow> i ndims_over_2; b \<leftarrow> i ndims; Some (a * 2 \<noteq> b) });
     if mismatch then Some (False, st)
     else do {
       varsplit \<leftarrow> pattern_map ''varsplit'';
       repeat_interleave_sin \<leftarrow> pattern_map ''repeat_interleave_sin'';
       repeat_interleave_cos \<leftarrow> pattern_map ''repeat_interleave_cos'';
       neg_Multiply_1177 \<leftarrow> pattern_map ''neg_Multiply_1177'';
       stack_1182 \<leftarrow> pattern_map ''stack_1182'';
       mul_cos \<leftarrow> pattern_map ''mul_cos'';
       mul_sin \<leftarrow> pattern_map ''mul_sin'';
       rotary_emb \<leftarrow> pattern_map ''rotary_emb'';
       result \<leftarrow> pattern_map ''result'';
       let rt_from = map fst [varsplit, repeat_interleave_sin, repeat_interleave_cos,
                              neg_Multiply_1177, stack_1182, mul_cos, mul_sin, rotary_emb,
                              result];
       ndims_i \<leftarrow> i ndims;
       let config = default_Config\<lparr>rotary_ndims := ndims_i\<rparr>;
       root_node \<leftarrow> get_node st root;
       (config, rt_from, root) \<leftarrow> fuse_output_transpose st config rt_from root;
       let config = config\<lparr>is_interleaved := True\<rparr>;
       view_Reshape \<leftarrow> pattern_map ''view_Reshape'';
       gather_sin_cos \<leftarrow> pattern_map ''gather_sin_cos'';
       let new_args = [view_Reshape, gather_sin_cos, gather_sin_cos];
       let old_node = root;
       old \<leftarrow> get_node st old_node;
       let (st, new_node) = make_RoPE new_args config st;
       let st = set_friendly_name new_node (friendly_name old) st;
       let st = copy_runtime_info rt_from new_node st;
       let st = replace_node old_node new_node st;
       let rotary_emb_out = (fst rotary_emb, 0);
       rotary_emb_node \<leftarrow> get_node st (fst rotary_emb);
       let st = (if length (get_target_inputs st rotary_emb_out) = 2
                 then move_ShapeOf view_Reshape (get_target_inputs st rotary_emb_out) st
                 else st);
       Some (True, st)
     }
   }"

subsection \<open>RoPEFusionChatGLM\<close>

definition chatglm_validate_reshape_symbols :: "(string \<Rightarrow> int) \<Rightarrow> bool option" where
  "chatglm_validate_reshape_symbols symbol_values = do {
     A \<leftarrow> cast_int (symbol_values ''A'');
     B \<leftarrow> cast_int (symbol_values ''B'');
     C \<leftarrow> cast_int (symbol_values ''C'');
     head_cnt \<leftarrow> cast_int (symbol_values ''head_cnt'');
     if (A = - 1 \<and> B = head_cnt \<and> C = 1) \<or>
        (A = 1 \<and> B = - 1 \<and> C = head_cnt) \<or>
        (A = 0 \<and> B = 0 \<and> C = 0)
     then Some True
     else Some False
   }"

definition RoPEFusionChatGLM_callback ::
  "int \<Rightarrow> bool \<Rightarrow> pass_state \<Rightarrow> Matcher \<Rightarrow> (bool \<times> pass_state) option" where
  "RoPEFusionChatGLM_callback split_output_id support_2d st m = do {
     let pattern_map = get_pattern_value_map m;
     let root = get_match_root m;
     if \<not> validator_ok m then Some (False, st)
     else do {
       symbols_ok \<leftarrow> chatglm_validate_reshape_symbols (validator m);
       if \<not> symbols_ok then Some (False, st)
       else do {
         ndims \<leftarrow> cast_size_t (validator m ''ndims'');
         let config = default_Config\<lparr>rotary_ndims := ndims\<rparr>;
         let config = config\<lparr>is_chatglm := True\<rparr>;
         let config = config\<lparr>support_2d_rope := support_2d\<rparr>;
         let config = config\<lparr>use_rope_cache := True\<rparr>;
         head_cnt_v \<leftarrow> cast_size_t (validator m ''head_cnt'');
         let config = config\<lparr>head_cnt := head_cnt_v\<rparr>;
         head_size_v \<leftarrow> cast_size_t (validator m ''head_size'');
         let config = config\<lparr>head_size := head_size_v\<rparr>;
         config \<leftarrow>
           (if split_output_id = 0 then do {
              let config = config\<lparr>slice_start := 0\<rparr>;
              total_size_q \<leftarrow> cast_size_t (validator m ''total_size_q'');
              Some (config\<lparr>slice_stop := total_size_q\<rparr>)
            }
            else do {
              total_size_q \<leftarrow> cast_size_t (validator m ''total_size_q'');
              let config = config\<lparr>slice_start := total_size_q\<rparr>;
              stop \<leftarrow> cast_size_t (uint (slice_start config) + validator m ''total_size_k'');
              Some (config\<lparr>slice_stop := stop\<rparr>)
            });
         root_node \<leftarrow> get_node st root;
         if is_Reshape root_node \<and> rotary_ndims config \<noteq> head_size config
         then Some (False, st)
         else do {
           qkv_linear \<leftarrow> pattern_map ''qkv_linear'';
           cos_sin_cache \<leftarrow> pattern_map ''cos_sin_cache'';
           let new_args = [qkv_linear, cos_sin_cache, cos_sin_cache];
           let old_node = root;
           let (st, new_node) = make_RoPE new_args config st;
           let st = set_friendly_name new_node (friendly_name root_node) st;
           input0 \<leftarrow> input_value root_node 0;
           let st = copy_runtime_info [fst input0, root] new_node st;
           let st = replace_node old_node new_node st;
           Some (True, st)
         }
       }
     }
   }"

subsection \<open>RoPEFusionQwen\<close>

definition RoPEFusionQwen_callback ::
  "int \<Rightarrow> pass_state \<Rightarrow> Matcher \<Rightarrow> (bool \<times> pass_state) option" where
  "RoPEFusionQwen_callback split_output_id st m = do {
     let pattern_map = get_pattern_value_map m;
     let root = get_match_root m;
     let symbols = get_symbols m;
     let head_cnt_sym = symbols ''head_cnt'';
     let head_size_sym = symbols ''head_size'';
     let head_size_over_2 = symbols ''head_size/2'';
     let head_cnt_by_head_size = symbols ''head_cnt*head_size'';
     mismatch \<leftarrow>
       (if \<not> is_integer head_cnt_sym \<or> \<not> is_integer head_size_sym \<or>
           \<not> is_integer head_size_over_2 \<or> \<not> is_integer head_cnt_by_head_size
        then Some True
        else do {
          hc \<leftarrow> i head_cnt_sym;
          hs \<leftarrow> i head_size_sym;
          h2 \<leftarrow> i head_size_over_2;
          hchs \<leftarrow> i head_cnt_by_head_size;
          Some (h2 * 2 \<noteq> hs \<or> hc * hs \<noteq> hchs)
        });
     if mismatch then Some (False, st)
     else do {
       head_cnt_i \<leftarrow> i head_cnt_sym;
       head_size_i \<leftarrow> i head_size_sym;
       let config = default_Config\<lparr>is_qwen := True\<rparr>;
       let config = config\<lparr>head_cnt := head_cnt_i\<rparr>;
       let config = config\<lparr>head_size := head_size_i\<rparr>;
       let config = config\<lparr>rotary_ndims := head_size config\<rparr>;
       let config =
         (if split_output_id = 0 then
            (let config = config\<lparr>slice_start := 0\<rparr>
             in config\<lparr>slice_stop := head_cnt config * head_size config\<rparr>)
          else
            (let config = config\<lparr>slice_start := head_cnt config * head_size config\<rparr>
             in config\<lparr>slice_stop := slice_start config + head_cnt config * head_size config\<rparr>));
       qkv_proj \<leftarrow> pattern_map ''qkv_proj'';
       rotary_emb_cos \<leftarrow> pattern_map ''rotary_emb_cos'';
       rotary_emb_sin \<leftarrow> pattern_map ''rotary_emb_sin'';
       let new_args = [qkv_proj, rotary_emb_cos, rotary_emb_sin];
       Multiply_567527 \<leftarrow> pattern_map ''Multiply_567527'';
       cat_Concat_593 \<leftarrow> pattern_map ''cat_Concat_593'';
       mul_Multiply_594 \<leftarrow> pattern_map ''mul_Multiply_594'';
       result \<leftarrow> pattern_map ''result'';
       let rt_from = map fst [Multiply_567527, cat_Concat_593, mul_Multiply_594, result];
       (new_args, config, rt_from) \<leftarrow>
         (if count pattern_map ''position_ids'' then do {
            position_ids \<leftarrow> pattern_map ''position_ids'';
            ListUnpack_Squeeze_0_1 \<leftarrow> pattern_map ''ListUnpack_Squeeze_0_1'';
            ListUnpack_Squeeze_1 \<leftarrow> pattern_map ''ListUnpack_Squeeze_1'';
            Some (new_args @ [position_ids], config\<lparr>gather_position_arg_id := 3\<rparr>,
                  rt_from @ [fst ListUnpack_Squeeze_0_1, fst ListUnpack_Squeeze_1])
          }
          else do {
            ListUnpack_586_Squeeze_0 \<leftarrow> pattern_map ''ListUnpack_586_Squeeze_0'';
            ListUnpack_586_Squeeze \<leftarrow> pattern_map ''ListUnpack_586_Squeeze'';
            Some (new_args, config,
                  rt_from @ [fst ListUnpack_586_Squeeze_0, fst ListUnpack_586_Squeeze])
          });
       let old_node = root;
       old \<leftarrow> get_node st old_node;
       let (st, new_node) = make_RoPE new_args config st;
       let st = set_friendly_name new_node (friendly_name old) st;
       let st = copy_runtime_info rt_from new_node st;
       let st = replace_node old_node new_node st;
       Some (True, st)
     }
   }"

subsection \<open>RoPEShareCosSin\<close>

text \<open>
  Modelled from the spec: the members of the pass, \<^verbatim>\<open>m_inv_freq\<close>,
  \<^verbatim>\<open>m_shared_cos0\<close>, \<^verbatim>\<open>m_shared_sin0\<close> (node handles) and
  \<^verbatim>\<open>m_shared_inputs\<close>, are declared in the header of the pass, which is not part of
  the sources. The state holds "the first-seen constant table, the first-seen pair of
  shared inputs, and the first-seen cosine node / sine node" and is "empty at pass start".
\<close>

record RoPEShareCosSin_state =
  m_inv_freq :: "node_id option"
  m_shared_cos0 :: "node_id option"
  m_shared_sin0 :: "node_id option"
  m_shared_inputs :: "node_id option list"

definition RoPEShareCosSin_init :: RoPEShareCosSin_state where
  "RoPEShareCosSin_init =
     \<lparr>m_inv_freq = None, m_shared_cos0 = None, m_shared_sin0 = None,
      m_shared_inputs = [None, None]\<rparr>"

text \<open>The two wildcards \<^verbatim>\<open>inputs[0]\<close> and \<^verbatim>\<open>inputs[1]\<close> of the pattern.\<close>

definition inputs_key :: "nat \<Rightarrow> string option" where
  "inputs_key k = (if k = 0 then Some ''inputs[0]'' else if k = 1 then Some ''inputs[1]'' else None)"

text \<open>
  The loop of the first match, \<^verbatim>\<open>for (i = 0; i < m_shared_inputs.size(); i++)\<close>, over
  the remaining indices: the shared inputs as the loop leaves them, and whether it ran to
  its end (it returns false from the callback on a wildcard that is not bound).
\<close>

fun collect_shared_inputs ::
  "(string \<rightharpoonup> Output) \<Rightarrow> nat list \<Rightarrow> node_id option list \<Rightarrow> (node_id option list \<times> bool) option"
  where
  "collect_shared_inputs pattern_map [] shared = Some (shared, True)"
| "collect_shared_inputs pattern_map (k # ks) shared =
     (case inputs_key k of
        None \<Rightarrow> None
      | Some key \<Rightarrow>
          (case pattern_map key of
             None \<Rightarrow> Some (shared, False)
           | Some it \<Rightarrow> collect_shared_inputs pattern_map ks (shared[k := Some (fst it)])))"

text \<open>
  The loop "check all inputs are the same as the one to be shared",
  \<^verbatim>\<open>for (i = 0; i < inputs.size(); i++)\<close>.
\<close>

fun check_shared_inputs ::
  "(string \<rightharpoonup> Output) \<Rightarrow> nat list \<Rightarrow> node_id option list \<Rightarrow> bool option" where
  "check_shared_inputs pattern_map [] shared = Some True"
| "check_shared_inputs pattern_map (k # ks) shared =
     (case inputs_key k of
        None \<Rightarrow> None
      | Some key \<Rightarrow>
          (case pattern_map key of
             None \<Rightarrow> Some False
           | Some it \<Rightarrow>
               (case at_index shared k of
                  None \<Rightarrow> None
                | Some shared_k \<Rightarrow>
                    if shared_k \<noteq> Some (fst it) then Some False
                    else check_shared_inputs pattern_map ks shared)))"

definition RoPEShareCosSin_callback ::
  "RoPEShareCosSin_state \<Rightarrow> pass_state \<Rightarrow> Matcher \<Rightarrow>
     (bool \<times> RoPEShareCosSin_state \<times> pass_state) option" where
  "RoPEShareCosSin_callback s st m = do {
     let pattern_map = get_pattern_value_map m;
     let root = get_match_root m;
     if \<not> validator_ok m then Some (False, s, st)
     else case pattern_map ''const_inv_freq'' of
       None \<Rightarrow> Some (False, s, st)
     | Some it \<Rightarrow> do {
         it_node \<leftarrow> get_node st (fst it);
         case as_Constant it_node of
           None \<Rightarrow> Some (False, s, st)
         | Some cur_inv_freq \<Rightarrow> do {
             (s, collected) \<leftarrow>
               (if m_inv_freq s = None then do {
                  (shared, finished) \<leftarrow>
                    collect_shared_inputs pattern_map [0 ..< length (m_shared_inputs s)]
                      (m_shared_inputs s);
                  let s = s\<lparr>m_shared_inputs := shared\<rparr>;
                  Some (if finished then s\<lparr>m_inv_freq := Some (fst it)\<rparr> else s, finished)
                }
                else Some (s, True));
             if \<not> collected then Some (False, s, st)
             else do {
               inv_freq_id \<leftarrow> m_inv_freq s;
               inv_freq_node \<leftarrow> get_node st inv_freq_id;
               global_inv_freq \<leftarrow> as_Constant inv_freq_node;
               if get_element_type cur_inv_freq \<noteq> get_element_type global_inv_freq
               then Some (False, s, st)
               else if get_shape cur_inv_freq \<noteq> get_shape global_inv_freq
               then Some (False, s, st)
               else do {
                 same_bytes \<leftarrow> memcmp_eq (get_data cur_inv_freq) (get_data global_inv_freq)
                                 (get_byte_size global_inv_freq);
                 if \<not> same_bytes then Some (False, s, st)
                 else do {
                   same_inputs \<leftarrow> check_shared_inputs pattern_map [0 ..< 2] (m_shared_inputs s);
                   if \<not> same_inputs then Some (False, s, st)
                   else do {
                     let is_sin_matched = (pattern_map ''sin_Sin'' \<noteq> None);
                     if is_sin_matched \<and> m_shared_sin0 s = None
                     then Some (False, s\<lparr>m_shared_sin0 := Some root\<rparr>, st)
                     else if \<not> is_sin_matched \<and> m_shared_cos0 s = None
                     then Some (False, s\<lparr>m_shared_cos0 := Some root\<rparr>, st)
                     else do {
                       let replacement =
                         (if pattern_map ''sin_Sin'' \<noteq> None then m_shared_sin0 s
                          else m_shared_cos0 s);
                       replacement_node \<leftarrow> replacement;
                       Some (True, s, replace_node root replacement_node st)
                     }
                   }
                 }
               }
             }
           }
       }
   }"

text \<open>
  The invariant of the state of the pass, over the matches of one run: the shared inputs
  are a pair; as long as no inverse-frequency constant is recorded no seed is recorded;
  a recorded inverse-frequency constant is a \<^verbatim>\<open>Constant\<close> of the model.
\<close>

definition share_invariant :: "RoPEShareCosSin_state \<Rightarrow> pass_state \<Rightarrow> bool" where
  "share_invariant s st =
     (length (m_shared_inputs s) = 2 \<and>
      (case m_inv_freq s of
         None \<Rightarrow> m_shared_cos0 s = None \<and> m_shared_sin0 s = None
       | Some f \<Rightarrow> f < length (nodes st) \<and> as_Constant (nodes st ! f) \<noteq> None))"

section \<open>Concrete inputs\<close>

text \<open>
  A type \<open>Base\<close> that is not a conversion extension, and an object whose C++ class
  derives from \<open>Base\<close> while its type tag names no parent.
\<close>

definition Base_type :: cpp_type where
  "Base_type =
     \<lparr>get_type_info_static = DiscreteTypeInfo ''Base'' (Some ''util'') None,
      static_class = CppClass ''Base'' []\<rparr>"

definition Derived_object :: object where
  "Derived_object =
     \<lparr>get_type_info = DiscreteTypeInfo ''Derived'' (Some ''opset1'') None,
      dynamic_class = CppClass ''Derived'' [CppClass ''Base'' []]\<rparr>"

text \<open>
  A conversion extension type, whose casts go through the type tags, and an object of it.
\<close>

definition Extension_type :: cpp_type where
  "Extension_type =
     \<lparr>get_type_info_static = DiscreteTypeInfo ''ConversionExtension'' None None,
      static_class =
        CppClass ''ov::frontend::ConversionExtension''
          [CppClass ''ov::frontend::ConversionExtensionBase'' []]\<rparr>"

definition Extension_object :: object where
  "Extension_object =
     \<lparr>get_type_info =
        DiscreteTypeInfo ''MyExtension'' None
          (Some (DiscreteTypeInfo ''ConversionExtension'' None None)),
      dynamic_class =
        CppClass ''MyExtension''
          [CppClass ''ov::frontend::ConversionExtension''
             [CppClass ''ov::frontend::ConversionExtensionBase'' []]]\<rparr>"

text \<open>
  The Flux subgraph of the comment in \<^verbatim>\<open>RoPEFusionFlux\<close>, read by a
  \<^verbatim>\<open>Result\<close>: nodes 0 to 2 are \<open>x\<close>, \<open>t_cos\<close> and \<open>t_sin\<close>, node 14 is the
  \<^verbatim>\<open>Add\<close> at the root.
\<close>

definition plain_node :: "string \<Rightarrow> Output list \<Rightarrow> Node" where
  "plain_node kind ins = \<lparr>node_op = Other kind, inputs = ins, friendly_name = kind, rt_info = []\<rparr>"

definition const_node :: "Constant_data \<Rightarrow> Node" where
  "const_node c = \<lparr>node_op = Constant c, inputs = [], friendly_name = ''Constant'', rt_info = []\<rparr>"

definition i64_const :: "64 word list \<Rightarrow> Constant_data" where
  "i64_const vs =
     \<lparr>get_element_type = ''i64'', get_shape = [length vs], get_data = [],
      cast_vector_int64 = vs\<rparr>"

definition flux_state :: pass_state where
  "flux_state =
     \<lparr>nodes =
        [plain_node ''Parameter'' [],
         plain_node ''Parameter'' [],
         plain_node ''Parameter'' [],
         const_node (i64_const [0, 24, 0, 64, 2]),
         \<lparr>node_op = Reshape, inputs = [(0, 0), (3, 0)], friendly_name = ''x1'', rt_info = []\<rparr>,
         const_node (i64_const [- 1]),
         plain_node ''Split'' [(4, 0), (5, 0)],
         const_node (i64_const [- 1]),
         plain_node ''Multiply'' [(6, 1), (7, 0)],
         plain_node ''Concat'' [(8, 0), (6, 0)],
         const_node (i64_const [0, 24, 0, 128]),
         \<lparr>node_op = Reshape, inputs = [(9, 0), (10, 0)], friendly_name = ''x3'', rt_info = []\<rparr>,
         plain_node ''Multiply'' [(0, 0), (1, 0)],
         plain_node ''Multiply'' [(11, 0), (2, 0)],
         plain_node ''Add'' [(12, 0), (13, 0)],
         plain_node ''Result'' [(14, 0)]],
      new_nodes = []\<rparr>"

definition flux_match :: "PatternSymbolValue \<Rightarrow> PatternSymbolValue \<Rightarrow> Matcher" where
  "flux_match heads hsize =
     \<lparr>get_pattern_value_map =
        map_of [(''x'', (0, 0)), (''t_cos'', (1, 0)), (''t_sin'', (2, 0)), (''x1'', (4, 0)),
                (''split'', (6, 0)), (''x1_1_neg'', (8, 0)), (''x2'', (9, 0)), (''x3'', (11, 0)),
                (''y1'', (12, 0)), (''y2'', (13, 0)), (''result'', (14, 0))],
      get_match_root = 14,
      get_symbols =
        (\<lambda>k. if k = ''PRESERVED_DIMS'' then SymGroup [SymDynamic 0, heads, SymDynamic 1]
             else if k = ''head_size'' then hsize
             else SymUnset),
      validator_ok = True,
      validator = (\<lambda>k. 0)\<rparr>"

text \<open>
  The GPT-NeoX subgraph \<^verbatim>\<open>mul(x, cos) + mul(rotate_half(x), sin)\<close> with
  \<open>half_ndims = 32\<close>: nodes 0 to 2 are \<open>x\<close>, \<open>cos\<close> and \<open>sin\<close>, node 9 is
  \<^verbatim>\<open>mul_cos\<close>, node 11 the \<^verbatim>\<open>Add\<close> at the root.
\<close>

definition neox_state :: pass_state where
  "neox_state =
     \<lparr>nodes =
        [plain_node ''Parameter'' [],
         plain_node ''Parameter'' [],
         plain_node ''Parameter'' [],
         const_node (i64_const [3]),
         const_node (i64_const [32, 32]),
         plain_node ''VariadicSplit'' [(0, 0), (3, 0), (4, 0)],
         plain_node ''Constant'' [],
         plain_node ''Multiply'' [(5, 1), (6, 0)],
         plain_node ''Concat'' [(7, 0), (5, 0)],
         plain_node ''Multiply'' [(0, 0), (1, 0)],
         plain_node ''Multiply'' [(8, 0), (2, 0)],
         plain_node ''Add'' [(9, 0), (10, 0)],
         plain_node ''Result'' [(11, 0)]],
      new_nodes = []\<rparr>"

definition neox_match :: "Output \<Rightarrow> Output \<Rightarrow> Matcher" where
  "neox_match a b =
     \<lparr>get_pattern_value_map =
        map_of [(''x'', (0, 0)), (''x_or_cos1'', a), (''x_or_cos2'', b), (''t_sin'', (2, 0)),
                (''varsplit'', (5, 0)), (''x2neg'', (7, 0)), (''x_rotate_half'', (8, 0)),
                (''mul_cos'', (9, 0)), (''mul_sin'', (10, 0)), (''result'', (11, 0))],
      get_match_root = 11,
      get_symbols = (\<lambda>k. if k = ''half_ndims'' then SymInt 32 else SymUnset),
      validator_ok = True,
      validator = (\<lambda>k. 0)\<rparr>"

text \<open>
  A GPT-J subgraph (the constant operands of the inner nodes are left out): node 0 is
  \<^verbatim>\<open>view_Reshape\<close>, node 1 \<^verbatim>\<open>gather_sin_cos\<close>, node 15 \<^verbatim>\<open>rotary_emb\<close>, node 16
  the \<^verbatim>\<open>Concat\<close> at the root. Its only consumer is the \<^verbatim>\<open>Transpose\<close> 18, whose
  permutation is the constant 17.
\<close>

definition gptj_state :: "64 word list \<Rightarrow> pass_state" where
  "gptj_state axes =
     \<lparr>nodes =
        [plain_node ''Parameter'' [],
         plain_node ''Parameter'' [],
         plain_node ''VariadicSplit'' [(1, 0)],
         plain_node ''Gather'' [(2, 0)],
         plain_node ''Gather'' [(2, 1)],
         plain_node ''VariadicSplit'' [(0, 0)],
         plain_node ''Slice'' [(5, 0)],
         plain_node ''Multiply'' [(6, 0)],
         plain_node ''Unsqueeze'' [(7, 0)],
         plain_node ''Slice'' [(5, 0)],
         plain_node ''Unsqueeze'' [(9, 0)],
         plain_node ''Concat'' [(8, 0), (10, 0)],
         \<lparr>node_op = Reshape, inputs = [(11, 0)], friendly_name = ''flatten'', rt_info = []\<rparr>,
         plain_node ''Multiply'' [(5, 0), (4, 0)],
         plain_node ''Multiply'' [(12, 0), (3, 0)],
         plain_node ''Add'' [(13, 0), (14, 0)],
         plain_node ''Concat'' [(15, 0), (5, 1)],
         const_node (i64_const axes),
         \<lparr>node_op = Transpose, inputs = [(16, 0), (17, 0)], friendly_name = ''permute'',
          rt_info = []\<rparr>,
         plain_node ''Result'' [(18, 0)]],
      new_nodes = []\<rparr>"

text \<open>
  The same subgraph with a \<^verbatim>\<open>ShapeOf\<close> (node 20) on the output of \<^verbatim>\<open>rotary_emb\<close>,
  which has two target inputs then.
\<close>

definition gptj_shapeof_state :: "64 word list \<Rightarrow> pass_state" where
  "gptj_shapeof_state axes =
     (gptj_state axes)\<lparr>nodes := nodes (gptj_state axes) @
        [\<lparr>node_op = ShapeOf, inputs = [(15, 0)], friendly_name = ''shape'', rt_info = []\<rparr>]\<rparr>"

definition gptj_match :: "64 word \<Rightarrow> 64 word \<Rightarrow> Matcher" where
  "gptj_match ndims ndims_over_2 =
     \<lparr>get_pattern_value_map =
        map_of [(''gather_sin_cos'', (1, 0)), (''varsplit'', (2, 0)),
                (''repeat_interleave_sin'', (3, 0)), (''repeat_interleave_cos'', (4, 0)),
                (''view_Reshape'', (0, 0)), (''varsplit_view_Reshape'', (5, 0)),
                (''neg_Multiply_1177'', (7, 0)), (''stack_1182'', (11, 0)),
                (''mul_cos'', (13, 0)), (''mul_sin'', (14, 0)), (''rotary_emb'', (15, 0)),
                (''result'', (16, 0))],
      get_match_root = 16,
      get_symbols =
        (\<lambda>k. if k = ''ndims'' then SymInt ndims
             else if k = ''ndims/2'' then SymInt ndims_over_2
             else SymUnset),
      validator_ok = True,
      validator = (\<lambda>k. 0)\<rparr>"

text \<open>
  A Qwen subgraph (constant operands left out): node 0 is \<^verbatim>\<open>qkv_proj\<close>, nodes 1 and 2
  the two rotary tables, node 16 the \<^verbatim>\<open>Add\<close> at the root.
\<close>

definition qwen_state :: pass_state where
  "qwen_state =
     \<lparr>nodes =
        [plain_node ''Parameter'' [],
         plain_node ''Parameter'' [],
         plain_node ''Parameter'' [],
         plain_node ''VariadicSplit'' [(0, 0)],
         \<lparr>node_op = Reshape, inputs = [(3, 0)], friendly_name = ''view'', rt_info = []\<rparr>,
         plain_node ''Slice'' [(4, 0)],
         plain_node ''Slice'' [(1, 0)],
         plain_node ''Multiply'' [(5, 0), (6, 0)],
         \<lparr>node_op = Reshape, inputs = [(5, 0)], friendly_name = ''reshape'', rt_info = []\<rparr>,
         plain_node ''Split'' [(8, 0)],
         plain_node ''Multiply'' [(9, 1)],
         plain_node ''Squeeze'' [(10, 0)],
         plain_node ''Squeeze'' [(9, 0)],
         plain_node ''Concat'' [(11, 0), (12, 0)],
         plain_node ''Slice'' [(2, 0)],
         plain_node ''Multiply'' [(13, 0), (14, 0)],
         plain_node ''Add'' [(7, 0), (15, 0)],
         plain_node ''Result'' [(16, 0)]],
      new_nodes = []\<rparr>"

definition qwen_match :: "64 word \<Rightarrow> 64 word \<Rightarrow> 64 word \<Rightarrow> 64 word \<Rightarrow> Matcher" where
  "qwen_match hc hs hs_over_2 hc_by_hs =
     \<lparr>get_pattern_value_map =
        map_of [(''qkv_proj'', (0, 0)), (''rotary_emb_cos'', (1, 0)), (''rotary_emb_sin'', (2, 0)),
                (''Multiply_567527'', (10, 0)), (''ListUnpack_586_Squeeze_0'', (11, 0)),
                (''ListUnpack_586_Squeeze'', (12, 0)), (''cat_Concat_593'', (13, 0)),
                (''mul_Multiply_594'', (15, 0)), (''result'', (16, 0))],
      get_match_root = 16,
      get_symbols =
        (\<lambda>k. if k = ''head_cnt'' then SymInt hc
             else if k = ''head_size'' then SymInt hs
             else if k = ''head_size/2'' then SymInt hs_over_2
             else if k = ''head_cnt*head_size'' then SymInt hc_by_hs
             else SymUnset),
      validator_ok = True,
      validator = (\<lambda>k. 0)\<rparr>"

text \<open>
  A ChatGLM subgraph (constant operands left out): node 0 is \<^verbatim>\<open>qkv_linear\<close>, node 1
  \<^verbatim>\<open>cos_sin_cache\<close>, nodes 16 and 20 the reshapes \<^verbatim>\<open>y_even\<close> and \<^verbatim>\<open>y_odd\<close>
  whose target shape is \<open>[A, B, C, ndims/2, 1]\<close>, node 23 the \<^verbatim>\<open>Concat\<close> at the
  root. The symbols are \<open>ndims = 64\<close>, \<open>head_cnt = 32\<close>, \<open>head_size = 128\<close>.
\<close>

definition chatglm_state :: pass_state where
  "chatglm_state =
     \<lparr>nodes =
        [plain_node ''Parameter'' [],
         plain_node ''Parameter'' [],
         plain_node ''VariadicSplit'' [(0, 0)],
         \<lparr>node_op = Reshape, inputs = [(2, 0)], friendly_name = ''cur_key'', rt_info = []\<rparr>,
         plain_node ''VariadicSplit'' [(3, 0)],
         \<lparr>node_op = Reshape, inputs = [(4, 0)], friendly_name = ''reshape_453'', rt_info = []\<rparr>,
         plain_node ''Gather'' [(5, 0)],
         plain_node ''Gather'' [(5, 0)],
         plain_node ''VariadicSplit'' [(1, 0)],
         \<lparr>node_op = Reshape, inputs = [(8, 0)], friendly_name = ''view_460'', rt_info = []\<rparr>,
         plain_node ''Gather'' [(9, 0)],
         plain_node ''Gather'' [(9, 0)],
         plain_node ''Multiply'' [(6, 0), (10, 0)],
         plain_node ''Multiply'' [(7, 0), (11, 0)],
         plain_node ''Multiply'' [(13, 0)],
         plain_node ''Add'' [(12, 0), (14, 0)],
         \<lparr>node_op = Reshape, inputs = [(15, 0)], friendly_name = ''y_even'', rt_info = []\<rparr>,
         plain_node ''Multiply'' [(7, 0), (10, 0)],
         plain_node ''Multiply'' [(6, 0), (11, 0)],
         plain_node ''Add'' [(17, 0), (18, 0)],
         \<lparr>node_op = Reshape, inputs = [(19, 0)], friendly_name = ''y_odd'', rt_info = []\<rparr>,
         plain_node ''Concat'' [(16, 0), (20, 0)],
         \<lparr>node_op = Reshape, inputs = [(21, 0)], friendly_name = ''flatten'', rt_info = []\<rparr>,
         plain_node ''Concat'' [(22, 0), (4, 1)],
         plain_node ''Result'' [(23, 0)]],
      new_nodes = []\<rparr>"

definition chatglm_match :: "int \<Rightarrow> int \<Rightarrow> int \<Rightarrow> Matcher" where
  "chatglm_match A B C =
     \<lparr>get_pattern_value_map = map_of [(''qkv_linear'', (0, 0)), (''cos_sin_cache'', (1, 0))],
      get_match_root = 23,
      get_symbols = (\<lambda>k. SymUnset),
      validator_ok = True,
      validator =
        (\<lambda>k. if k = ''A'' then A else if k = ''B'' then B else if k = ''C'' then C
             else if k = ''ndims'' then 64
             else if k = ''head_cnt'' then 32
             else if k = ''head_size'' then 128
             else if k = ''total_size_q'' then 4096
             else if k = ''total_size_k'' then 256
             else 0)\<rparr>"

text \<open>
  A fused RoPE node (node 6, with \<open>rotary_ndims = 64\<close> and 32 heads of size 128) whose
  data argument is the transpose of a slice \<open>[128, 256)\<close> of the combined projection
  (node 0).
\<close>

definition preprocess_state :: pass_state where
  "preprocess_state =
     \<lparr>nodes =
        [plain_node ''Parameter'' [],
         plain_node ''Slice'' [(0, 0)],
         const_node (i64_const [0, 2, 1, 3]),
         \<lparr>node_op = Transpose, inputs = [(1, 0), (2, 0)], friendly_name = ''permute'',
          rt_info = []\<rparr>,
         plain_node ''Parameter'' [],
         plain_node ''Parameter'' [],
         \<lparr>node_op = RoPE (default_Config\<lparr>rotary_ndims := 64, head_cnt := 32, head_size := 128,
                                          gather_position_arg_id := 3\<rparr>),
          inputs = [(3, 0), (4, 0), (5, 0)], friendly_name = ''rope'', rt_info = [0]\<rparr>,
         plain_node ''Result'' [(6, 0)]],
      new_nodes = []\<rparr>"

definition preprocess_match :: Matcher where
  "preprocess_match =
     \<lparr>get_pattern_value_map =
        map_of [(''input_to_slice'', (0, 0)), (''input_slice'', (1, 0)), (''x'', (3, 0)),
                (''result'', (6, 0))],
      get_match_root = 6,
      get_symbols = (\<lambda>k. SymUnset),
      validator_ok = True,
      validator = (\<lambda>k. if k = ''slice_start'' then 128 else if k = ''slice_stop'' then 256 else 0)\<rparr>"

text \<open>
  Three preparations of the cosine and sine tables, as three layers of a model have them
  (constant operands other than the inverse frequencies left out). Nodes 0 and 1 are the
  two shared inputs. Preparation A (nodes 2 to 11) and preparation A' (nodes 22 to 31) have
  separate inverse-frequency constants with the same type, shape and bytes; the constant
  of preparation B (nodes 12 to 21) has other bytes. In each preparation the unsqueezed
  cosine is the eighth node and the unsqueezed sine the tenth.
\<close>

definition inv_freq_data :: "8 word list \<Rightarrow> Constant_data" where
  "inv_freq_data bytes =
     \<lparr>get_element_type = ''f32'', get_shape = [1, 2, 1], get_data = bytes,
      cast_vector_int64 = []\<rparr>"

definition table_preparation :: "nat \<Rightarrow> 8 word list \<Rightarrow> Node list" where
  "table_preparation k bytes =
     [const_node (inv_freq_data bytes),
      plain_node ''Broadcast'' [(0, 0)],
      plain_node ''Multiply'' [(k, 0), (k + 1, 0)],
      plain_node ''MatMul'' [(k + 2, 0), (1, 0)],
      \<lparr>node_op = Transpose, inputs = [(k + 3, 0)], friendly_name = ''transpose'', rt_info = []\<rparr>,
      plain_node ''Concat'' [(k + 4, 0), (k + 4, 0)],
      plain_node ''Cos'' [(k + 5, 0)],
      plain_node ''Unsqueeze'' [(k + 6, 0)],
      plain_node ''Sin'' [(k + 5, 0)],
      plain_node ''Unsqueeze'' [(k + 8, 0)]]"

definition share_state :: pass_state where
  "share_state =
     \<lparr>nodes =
        [plain_node ''Parameter'' [], plain_node ''Parameter'' []] @
        table_preparation 2 [0, 0, 128, 63, 0, 0, 0, 63] @
        table_preparation 12 [0, 0, 128, 63, 0, 0, 128, 62] @
        table_preparation 22 [0, 0, 128, 63, 0, 0, 0, 63] @
        [plain_node ''Multiply'' [(9, 0)], plain_node ''Multiply'' [(11, 0)],
         plain_node ''Multiply'' [(19, 0)], plain_node ''Multiply'' [(21, 0)],
         plain_node ''Multiply'' [(29, 0)], plain_node ''Multiply'' [(31, 0)]],
      new_nodes = []\<rparr>"

text \<open>
  The match of the cosine (\<open>sin = False\<close>) or sine branch of the preparation that
  starts at node \<open>k\<close>.
\<close>

definition share_match :: "nat \<Rightarrow> bool \<Rightarrow> Matcher" where
  "share_match k sin =
     \<lparr>get_pattern_value_map =
        map_of ([(''inputs[0]'', (0, 0)), (''inputs[1]'', (1, 0)), (''const_inv_freq'', (k, 0)),
                 (''Broadcast_58775'', (k + 1, 0)), (''expand_Broadcast'', (k + 2, 0)),
                 (''matmul_MatMul'', (k + 3, 0)), (''transpose_Transpose'', (k + 4, 0)),
                 (''cat_Concat'', (k + 5, 0))] @
                (if sin then [(''sin_Sin'', (k + 8, 0)), (''result'', (k + 9, 0))]
                 else [(''cos_Cos'', (k + 6, 0)), (''result'', (k + 7, 0))])),
      get_match_root = (if sin then k + 9 else k + 7),
      get_symbols = (\<lambda>k. SymUnset),
      validator_ok = True,
      validator = (\<lambda>k. 0)\<rparr>"

text \<open>The state of the pass after the cosine branch of preparation A has matched.\<close>

definition share_after_cos_A :: RoPEShareCosSin_state where
  "share_after_cos_A =
     \<lparr>m_inv_freq = Some 2, m_shared_cos0 = Some 9, m_shared_sin0 = None,
      m_shared_inputs = [Some 0, Some 1]\<rparr>"

section \<open>Properties of the type discrimination\<close>

lemma is_type_nullptr: "is_type T nullptr = Some False"
  by (simp add: is_type_def)

lemma is_type_Ptr:
  "is_type T (Ptr obj) = Some (is_castable (get_type_info obj) (get_type_info_static T))"
  by (simp add: is_type_def)

text \<open>
  C10, counterexample to "\<open>as_type_ptr\<close> yields an empty pointer on every handle that
  is not castable": for a type that is not a conversion extension, \<open>as_type_ptr\<close>
  asks the C++ run-time cast, which succeeds for an object of a derived class whatever
  its type tag says. Here \<open>is_type\<close> is false and \<open>as_type_ptr\<close> returns the
  handle.
\<close>

theorem C10_as_type_ptr_counterexample:
  "is_type Base_type (Ptr Derived_object) = Some False \<and>
   as_type_ptr Base_type (Ptr Derived_object) = Some (Ptr Derived_object)"
  by (simp add: is_type_def as_type_ptr_def use_ov_dynamic_cast_def dynamic_pointer_cast_def
      Base_type_def Derived_object_def type_info_eq_def)

text \<open>
  C10: \<open>is_type\<close> is false on a null handle without reading through it (the result is
  not the undefined behaviour \<open>None\<close>), and is otherwise exactly the result of
  \<open>is_castable\<close> on the two type tags. \<open>as_type_ptr\<close> never fails; it yields an
  empty pointer on a null handle; on a non-null handle it yields the handle or an empty
  pointer, decided by \<open>is_castable\<close> when the type is a conversion extension
  (\<open>use_ov_dynamic_cast\<close>) and by the C++ run-time cast otherwise.
\<close>

theorem C10_is_type_as_type_ptr:
  "is_type T nullptr = Some False \<and>
   is_type T (Ptr obj) = Some (is_castable (get_type_info obj) (get_type_info_static T)) \<and>
   as_type_ptr T nullptr = Some nullptr \<and>
   as_type_ptr T (Ptr obj) =
     Some (if use_ov_dynamic_cast T
           then (if is_castable (get_type_info obj) (get_type_info_static T)
                 then Ptr obj else nullptr)
           else (if is_base_of (class_name (static_class T)) (dynamic_class obj)
                 then Ptr obj else nullptr))"
  by (simp add: is_type_nullptr is_type_Ptr as_type_ptr_def AsTypePtr_call_def
      dynamic_pointer_cast_def)

theorem C10_is_type_as_type_ptr_witness:
  "is_type Extension_type nullptr = Some False \<and>
   is_type Extension_type (Ptr Extension_object) = Some True \<and>
   is_type Extension_type (Ptr Derived_object) = Some False \<and>
   as_type_ptr Extension_type nullptr = Some nullptr \<and>
   as_type_ptr Extension_type (Ptr Extension_object) = Some (Ptr Extension_object) \<and>
   as_type_ptr Extension_type (Ptr Derived_object) = Some nullptr \<and>
   as_type_ptr Base_type nullptr = Some nullptr \<and>
   as_type_ptr Base_type (Ptr Extension_object) = Some nullptr"
  using C10_is_type_as_type_ptr [of Extension_type Extension_object]
    C10_is_type_as_type_ptr [of Extension_type Derived_object]
    C10_is_type_as_type_ptr [of Base_type Extension_object]
  by (simp add: use_ov_dynamic_cast_def Base_type_def Derived_object_def Extension_type_def
      Extension_object_def type_info_eq_def)

section \<open>Properties of the fusion rules\<close>

lemma get_node_Some: "n < length (nodes st) \<Longrightarrow> get_node st n = Some (nodes st ! n)"
  by (simp add: get_node_def)

subsection \<open>RoPEFusionFlux\<close>

text \<open>
  C1: on a match of the Flux pattern whose input \<open>x\<close> has the shape
  \<open>[B, 24, L, 128]\<close> (\<open>B\<close> and \<open>L\<close> are arbitrary, static or not), the callback
  returns true and adds exactly one node to the model: a RoPE node with the inputs
  \<open>(x, t_cos, t_sin)\<close> and the configuration \<open>head_cnt = 24\<close>, \<open>head_size = 128\<close>,
  \<open>rotary_ndims = 128\<close>, \<open>is_interleaved = true\<close>, \<open>output_trans0213 = false\<close>
  (every other field as default-constructed). Every input that read the \<^verbatim>\<open>Add\<close> root
  reads the new node afterwards, no other input and no operator changes, and the new node
  is registered for the following matchers. The three inputs lie upstream of the root.
\<close>

theorem C1_flux_fuses_with_config:
  assumes shape:
      "shape_matches_PRESERVED_DIMS_head_size [B, SymInt 24, L, SymInt 128] (get_symbols m)"
    and x: "get_pattern_value_map m ''x'' = Some x"
    and t_cos: "get_pattern_value_map m ''t_cos'' = Some t_cos"
    and t_sin: "get_pattern_value_map m ''t_sin'' = Some t_sin"
    and bound: "\<forall>k \<in> set [''x1'', ''split'', ''x2'', ''x3'', ''y1'', ''y2'', ''result''].
                  get_pattern_value_map m k \<noteq> None"
    and root: "get_match_root m < length (nodes st)"
    and upstream: "fst x \<noteq> get_match_root m" "fst t_cos \<noteq> get_match_root m"
                  "fst t_sin \<noteq> get_match_root m"
  shows "\<exists>st'. RoPEFusionFlux_callback st m = Some (True, st') \<and>
           length (nodes st') = Suc (length (nodes st)) \<and>
           node_op (nodes st' ! length (nodes st)) =
             RoPE (default_Config\<lparr>head_cnt := 24, head_size := 128, rotary_ndims := 128,
                                  is_interleaved := True, output_trans0213 := False\<rparr>) \<and>
           inputs (nodes st' ! length (nodes st)) = [x, t_cos, t_sin] \<and>
           (\<forall>c < length (nodes st).
              node_op (nodes st' ! c) = node_op (nodes st ! c) \<and>
              inputs (nodes st' ! c) =
                map (rewire (get_match_root m) (length (nodes st))) (inputs (nodes st ! c))) \<and>
           new_nodes st' = new_nodes st @ [length (nodes st)]"
proof -
  from bound obtain x1 split x2 x3 y1 y2 result where b:
    "get_pattern_value_map m ''x1'' = Some x1"
    "get_pattern_value_map m ''split'' = Some split"
    "get_pattern_value_map m ''x2'' = Some x2"
    "get_pattern_value_map m ''x3'' = Some x3"
    "get_pattern_value_map m ''y1'' = Some y1"
    "get_pattern_value_map m ''y2'' = Some y2"
    "get_pattern_value_map m ''result'' = Some result"
    by auto
  show ?thesis
    using shape x t_cos t_sin b root upstream
    by (auto simp add: RoPEFusionFlux_callback_def shape_matches_PRESERVED_DIMS_head_size_def
        at_index_def is_static_def get_node_def make_RoPE_def set_friendly_name_def
        copy_runtime_info_def replace_node_def register_new_node_def update_node_def
        rewire_def nth_append Let_def)
qed

theorem C1_flux_fuses_with_config_witness:
  "shape_matches_PRESERVED_DIMS_head_size
     [SymDynamic 0, SymInt 24, SymDynamic 1, SymInt 128]
     (get_symbols (flux_match (SymInt 24) (SymInt 128))) \<and>
   length (nodes flux_state) = 16 \<and>
   (\<exists>st'. RoPEFusionFlux_callback flux_state (flux_match (SymInt 24) (SymInt 128)) =
             Some (True, st') \<and>
          length (nodes st') = Suc (length (nodes flux_state)) \<and>
          inputs (nodes st' ! length (nodes flux_state)) = [(0, 0), (1, 0), (2, 0)] \<and>
          new_nodes st' = [length (nodes flux_state)])"
proof -
  have shape: "shape_matches_PRESERVED_DIMS_head_size
      [SymDynamic 0, SymInt 24, SymDynamic 1, SymInt 128]
      (get_symbols (flux_match (SymInt 24) (SymInt 128)))"
    by (simp add: shape_matches_PRESERVED_DIMS_head_size_def flux_match_def)
  have len: "length (nodes flux_state) = 16"
    by (simp add: flux_state_def)
  have new: "new_nodes flux_state = []"
    by (simp add: flux_state_def)
  have "\<exists>st'. RoPEFusionFlux_callback flux_state (flux_match (SymInt 24) (SymInt 128)) =
             Some (True, st') \<and>
          length (nodes st') = Suc (length (nodes flux_state)) \<and>
          inputs (nodes st' ! length (nodes flux_state)) = [(0, 0), (1, 0), (2, 0)] \<and>
          new_nodes st' = [length (nodes flux_state)]"
    using C1_flux_fuses_with_config [of "SymDynamic 0" "SymDynamic 1"
      "flux_match (SymInt 24) (SymInt 128)" "(0, 0)" "(1, 0)" "(2, 0)" flux_state, OF shape]
    by (simp add: flux_match_def len new) blast
  with shape len show ?thesis
    by blast
qed

text \<open>
  C3: on a match of the Flux pattern whose input has the shape \<open>[B, H, L, S]\<close> with
  the head count \<open>H\<close> (the second preserved dimension) or the head size \<open>S\<close> not
  static, the callback returns false and the state of the pass, the model included, is
  the one it was called with.
\<close>

theorem C3_flux_dynamic_shape_rejected:
  assumes "shape_matches_PRESERVED_DIMS_head_size [B, H, L, S] (get_symbols m)"
    and "\<not> is_static H \<or> \<not> is_static S"
  shows "RoPEFusionFlux_callback st m = Some (False, st)"
  using assms
  by (auto simp add: RoPEFusionFlux_callback_def shape_matches_PRESERVED_DIMS_head_size_def
      at_index_def)

theorem C3_flux_dynamic_shape_rejected_witness:
  "shape_matches_PRESERVED_DIMS_head_size
     [SymDynamic 0, SymDynamic 2, SymDynamic 1, SymInt 128]
     (get_symbols (flux_match (SymDynamic 2) (SymInt 128))) \<and>
   \<not> is_static (SymDynamic 2) \<and>
   RoPEFusionFlux_callback flux_state (flux_match (SymDynamic 2) (SymInt 128)) =
     Some (False, flux_state)"
proof -
  have shape: "shape_matches_PRESERVED_DIMS_head_size
      [SymDynamic 0, SymDynamic 2, SymDynamic 1, SymInt 128]
      (get_symbols (flux_match (SymDynamic 2) (SymInt 128)))"
    by (simp add: shape_matches_PRESERVED_DIMS_head_size_def flux_match_def)
  have dyn: "\<not> is_static (SymDynamic 2) \<or> \<not> is_static (SymInt 128)"
    by (simp add: is_static_def)
  from C3_flux_dynamic_shape_rejected [OF shape dyn, of flux_state] shape show ?thesis
    by (simp add: is_static_def)
qed

subsection \<open>RoPEFusionGPTNEOX\<close>

lemma swap_operands_root:
  assumes "r < length (nodes st)"
  shows "length (nodes (swap_operands n st)) = length (nodes st)"
    and "friendly_name (nodes (swap_operands n st) ! r) = friendly_name (nodes st ! r)"
  using assms by (cases "n = r"; simp add: swap_operands_def update_node_def)+

text \<open>
  C2: take a match of the GPT-NeoX pattern in which the multiply \<^verbatim>\<open>mul_cos\<close> (node
  \<open>n\<close>) is written with the operands \<open>(a, b)\<close>, and the same model with the operands
  written the other way round, \<open>(b, a)\<close>, matched with the two wildcards bound in that
  order. If one of the two operands is the value bound to \<open>x\<close>, the callback returns
  true in both cases and fuses in both: exactly one node is added, the same in both, whose
  configuration is the default one with \<open>rotary_ndims = 2 * half_ndims\<close> and whose
  arguments are \<open>x\<close>, the other operand as the cosine, and \<open>t_sin\<close>; every input that
  read the \<^verbatim>\<open>Add\<close> root reads the new node afterwards, no other input and no operator
  changes, and the new node is registered for the following matchers. The two resulting
  models differ in the written order of the operands of \<open>n\<close> only. If neither operand is
  the value bound to \<open>x\<close>, the callback returns false in both cases and leaves the state
  as it is. The operands and \<open>t_sin\<close> lie upstream of the root.
\<close>

theorem C2_gptneox_operand_order:
  assumes x: "get_pattern_value_map m ''x'' = Some x"
    and a: "get_pattern_value_map m ''x_or_cos1'' = Some a"
    and b: "get_pattern_value_map m ''x_or_cos2'' = Some b"
    and mul: "get_pattern_value_map m ''mul_cos'' = Some (n, p)"
    and operands: "n < length (nodes st)" "inputs (nodes st ! n) = [a, b]"
    and t_sin: "get_pattern_value_map m ''t_sin'' = Some t_sin"
    and bound: "\<forall>k \<in> set [''x2neg'', ''x_rotate_half'', ''mul_sin'', ''result''].
                  get_pattern_value_map m k \<noteq> None"
    and half: "get_symbols m ''half_ndims'' = SymInt h"
    and root: "get_match_root m < length (nodes st)"
    and upstream: "fst a \<noteq> get_match_root m" "fst b \<noteq> get_match_root m"
                  "fst t_sin \<noteq> get_match_root m"
  shows "inputs (nodes (swap_operands n st) ! n) = [b, a] \<and>
         get_pattern_value_map (swap_x_or_cos m) ''x_or_cos1'' = Some b \<and>
         get_pattern_value_map (swap_x_or_cos m) ''x_or_cos2'' = Some a \<and>
         (a = x \<or> b = x \<longrightarrow>
           (\<exists>st1 st2.
              RoPEFusionGPTNEOX_callback st m = Some (True, st1) \<and>
              RoPEFusionGPTNEOX_callback (swap_operands n st) (swap_x_or_cos m) =
                Some (True, st2) \<and>
              length (nodes st1) = Suc (length (nodes st)) \<and>
              length (nodes st2) = Suc (length (nodes st)) \<and>
              nodes st2 ! length (nodes st) = nodes st1 ! length (nodes st) \<and>
              node_op (nodes st1 ! length (nodes st)) =
                RoPE (default_Config\<lparr>rotary_ndims := 2 * h\<rparr>) \<and>
              inputs (nodes st1 ! length (nodes st)) = [x, if a = x then b else a, t_sin] \<and>
              (\<forall>c < length (nodes st).
                 node_op (nodes st1 ! c) = node_op (nodes st ! c) \<and>
                 inputs (nodes st1 ! c) =
                   map (rewire (get_match_root m) (length (nodes st))) (inputs (nodes st ! c)) \<and>
                 node_op (nodes st2 ! c) = node_op (nodes st ! c) \<and>
                 inputs (nodes st2 ! c) =
                   map (rewire (get_match_root m) (length (nodes st)))
                     (inputs (nodes (swap_operands n st) ! c))) \<and>
              new_nodes st1 = new_nodes st @ [length (nodes st)] \<and>
              new_nodes st2 = new_nodes st @ [length (nodes st)] \<and>
              st2 = swap_operands n st1)) \<and>
         (a \<noteq> x \<and> b \<noteq> x \<longrightarrow>
            RoPEFusionGPTNEOX_callback st m = Some (False, st) \<and>
            RoPEFusionGPTNEOX_callback (swap_operands n st) (swap_x_or_cos m) =
              Some (False, swap_operands n st))"
proof -
  from bound obtain x2neg x_rotate_half mul_sin result where bd:
    "get_pattern_value_map m ''x2neg'' = Some x2neg"
    "get_pattern_value_map m ''x_rotate_half'' = Some x_rotate_half"
    "get_pattern_value_map m ''mul_sin'' = Some mul_sin"
    "get_pattern_value_map m ''result'' = Some result"
    by auto
  have pm: "get_pattern_value_map (swap_x_or_cos m) =
      (get_pattern_value_map m)(''x_or_cos1'' := Some b, ''x_or_cos2'' := Some a)"
    by (simp add: swap_x_or_cos_def a b)
  have rest: "get_match_root (swap_x_or_cos m) = get_match_root m"
    "get_symbols (swap_x_or_cos m) = get_symbols m"
    by (simp_all add: swap_x_or_cos_def)
  note sw = swap_operands_root [OF root, of n]
  define len where "len = length (nodes st)"
  define r where "r = get_match_root m"
  define fused where "fused v_cos =
     \<lparr>node_op = RoPE (default_Config\<lparr>rotary_ndims := 2 * h\<rparr>), inputs = [x, v_cos, t_sin],
      friendly_name = friendly_name (nodes st ! r),
      rt_info = map fst [x2neg, x_rotate_half, (n, p), mul_sin, result]\<rparr>" for v_cos
  define out where "out s v_cos =
     s\<lparr>nodes := map (\<lambda>y. y\<lparr>inputs := map (rewire r len) (inputs y)\<rparr>) (nodes s @ [fused v_cos]),
       new_nodes := new_nodes s @ [len]\<rparr>" for s :: pass_state and v_cos
  have cb1: "RoPEFusionGPTNEOX_callback st m = Some (True, out st (if a = x then b else a))"
    if "a = x \<or> b = x"
    using that x a b mul t_sin bd half root
    by (auto simp add: RoPEFusionGPTNEOX_callback_def get_node_def make_RoPE_def
        set_friendly_name_def copy_runtime_info_def replace_node_def register_new_node_def
        update_node_def Let_def out_def fused_def len_def r_def nth_append
        list_update_append)
  have cb2: "RoPEFusionGPTNEOX_callback (swap_operands n st) (swap_x_or_cos m) =
      Some (True, out (swap_operands n st) (if a = x then b else a))"
    if "a = x \<or> b = x"
    using that x a b mul t_sin bd half root sw
    by (auto simp add: RoPEFusionGPTNEOX_callback_def pm rest get_node_def make_RoPE_def
        set_friendly_name_def copy_runtime_info_def replace_node_def register_new_node_def
        update_node_def Let_def out_def fused_def len_def r_def nth_append
        list_update_append)
  have ne: "fst x \<noteq> r" if "a = x \<or> b = x"
    using that upstream by (auto simp add: r_def)
  have o1: "length (nodes (out s v_cos)) = Suc (length (nodes s))" for s v_cos
    by (simp add: out_def)
  have o2: "nodes (out s v_cos) ! length (nodes s) =
      (fused v_cos)\<lparr>inputs := map (rewire r len) (inputs (fused v_cos))\<rparr>" for s v_cos
    by (simp add: out_def nth_append)
  have o3: "node_op (nodes (out s v_cos) ! c) = node_op (nodes s ! c)"
    "inputs (nodes (out s v_cos) ! c) = map (rewire r len) (inputs (nodes s ! c))"
    if "c < length (nodes s)" for s v_cos c
    using that by (simp_all add: out_def nth_append)
  have o4: "new_nodes (out s v_cos) = new_nodes s @ [len]" for s v_cos
    by (simp add: out_def)
  have s0: "length (nodes (swap_operands n st)) = length (nodes st)"
    "new_nodes (swap_operands n st) = new_nodes st"
    "node_op (nodes (swap_operands n st) ! c) = node_op (nodes st ! c)" for c
    by (cases "n = c"; cases "n < length (nodes st)";
        simp add: swap_operands_def update_node_def list_update_beyond)+
  have comm: "out (swap_operands n st) v_cos = swap_operands n (out st v_cos)" for v_cos
    using operands(1)
    by (simp add: out_def swap_operands_def update_node_def list_update_append map_update
        rev_map nth_append)
  have fin: "inputs ((fused v_cos)\<lparr>inputs := map (rewire r len) (inputs (fused v_cos))\<rparr>) =
      [x, v_cos, t_sin]" if "fst x \<noteq> r" "fst v_cos \<noteq> r" for v_cos
    using that upstream(3) by (simp add: fused_def rewire_def r_def)
  have 1: "inputs (nodes (swap_operands n st) ! n) = [b, a]"
    using operands by (simp add: swap_operands_def update_node_def)
  have 2: "a \<noteq> x \<and> b \<noteq> x \<longrightarrow>
            RoPEFusionGPTNEOX_callback st m = Some (False, st) \<and>
            RoPEFusionGPTNEOX_callback (swap_operands n st) (swap_x_or_cos m) =
              Some (False, swap_operands n st)"
    using x a b by (simp add: RoPEFusionGPTNEOX_callback_def pm)
  have 3: "\<exists>st1 st2.
              RoPEFusionGPTNEOX_callback st m = Some (True, st1) \<and>
              RoPEFusionGPTNEOX_callback (swap_operands n st) (swap_x_or_cos m) =
                Some (True, st2) \<and>
              length (nodes st1) = Suc (length (nodes st)) \<and>
              length (nodes st2) = Suc (length (nodes st)) \<and>
              nodes st2 ! length (nodes st) = nodes st1 ! length (nodes st) \<and>
              node_op (nodes st1 ! length (nodes st)) =
                RoPE (default_Config\<lparr>rotary_ndims := 2 * h\<rparr>) \<and>
              inputs (nodes st1 ! length (nodes st)) = [x, if a = x then b else a, t_sin] \<and>
              (\<forall>c < length (nodes st).
                 node_op (nodes st1 ! c) = node_op (nodes st ! c) \<and>
                 inputs (nodes st1 ! c) =
                   map (rewire (get_match_root m) (length (nodes st))) (inputs (nodes st ! c)) \<and>
                 node_op (nodes st2 ! c) = node_op (nodes st ! c) \<and>
                 inputs (nodes st2 ! c) =
                   map (rewire (get_match_root m) (length (nodes st)))
                     (inputs (nodes (swap_operands n st) ! c))) \<and>
              new_nodes st1 = new_nodes st @ [length (nodes st)] \<and>
              new_nodes st2 = new_nodes st @ [length (nodes st)] \<and>
              st2 = swap_operands n st1" if ax: "a = x \<or> b = x"
  proof -
    let ?v = "if a = x then b else a"
    have vne: "fst ?v \<noteq> r" using upstream by (simp add: r_def)
    have new1: "inputs (nodes (out st ?v) ! length (nodes st)) = [x, ?v, t_sin]"
      unfolding o2 by (rule fin [OF ne [OF ax] vne])
    have op1: "node_op (nodes (out st ?v) ! length (nodes st)) =
        RoPE (default_Config\<lparr>rotary_ndims := 2 * h\<rparr>)"
      unfolding o2 by (simp add: fused_def)
    have same: "nodes (out (swap_operands n st) ?v) ! length (nodes st) =
        nodes (out st ?v) ! length (nodes st)"
      using o2 [of "swap_operands n st" ?v] o2 [of st ?v] by (simp add: s0)
    have frame: "node_op (nodes (out st ?v) ! c) = node_op (nodes st ! c) \<and>
        inputs (nodes (out st ?v) ! c) = map (rewire r len) (inputs (nodes st ! c)) \<and>
        node_op (nodes (out (swap_operands n st) ?v) ! c) = node_op (nodes st ! c) \<and>
        inputs (nodes (out (swap_operands n st) ?v) ! c) =
          map (rewire r len) (inputs (nodes (swap_operands n st) ! c))"
      if "c < length (nodes st)" for c
      using that o3 [of c st ?v] o3 [of c "swap_operands n st" ?v] by (simp add: s0)
    show ?thesis
      apply (rule exI [where x = "out st ?v"])
      apply (rule exI [where x = "out (swap_operands n st) ?v"])
      apply (intro conjI allI impI)
                apply (rule cb1 [OF ax])
               apply (rule cb2 [OF ax])
              apply (simp add: o1)
             apply (simp add: o1 s0)
            apply (rule same)
           apply (rule op1)
          apply (rule new1)
         apply (simp add: frame [unfolded len_def r_def])
        apply (simp add: frame [unfolded len_def r_def])
       apply (simp add: frame [unfolded len_def r_def])
      apply (simp add: frame [unfolded len_def r_def])
       apply (simp add: o4 len_def)
      apply (simp add: o4 s0 len_def)
      apply (rule comm)
      done
  qed
  from 1 2 3 show ?thesis by (simp add: pm)
qed


theorem C2_gptneox_operand_order_witness:
  "inputs (nodes neox_state ! 9) = [(0, 0), (1, 0)] \<and>
   inputs (nodes (swap_operands 9 neox_state) ! 9) = [(1, 0), (0, 0)] \<and>
   inputs (nodes neox_state ! 12) = [(11, 0)] \<and>
   (\<exists>st1 st2.
      RoPEFusionGPTNEOX_callback neox_state (neox_match (0, 0) (1, 0)) = Some (True, st1) \<and>
      RoPEFusionGPTNEOX_callback (swap_operands 9 neox_state)
        (swap_x_or_cos (neox_match (0, 0) (1, 0))) = Some (True, st2) \<and>
      nodes st2 ! 13 = nodes st1 ! 13 \<and>
      node_op (nodes st1 ! 13) = RoPE (default_Config\<lparr>rotary_ndims := 64\<rparr>) \<and>
      inputs (nodes st1 ! 13) = [(0, 0), (1, 0), (2, 0)] \<and>
      inputs (nodes st1 ! 12) = [(13, 0)] \<and>
      inputs (nodes st2 ! 12) = [(13, 0)] \<and>
      new_nodes st1 = [13] \<and> new_nodes st2 = [13])"
proof -
  have ops: "inputs (nodes neox_state ! 9) = [(0, 0), (1, 0)]"
    by (simp add: neox_state_def plain_node_def)
  have res: "inputs (nodes neox_state ! 12) = [(11, 0)]"
    "inputs (nodes (swap_operands 9 neox_state) ! 12) = [(11, 0)]"
    by (simp_all add: neox_state_def plain_node_def swap_operands_def update_node_def)
  have len: "length (nodes neox_state) = 13"
    by (simp add: neox_state_def)
  have new: "new_nodes neox_state = []"
    by (simp add: neox_state_def)
  have m: "get_pattern_value_map (neox_match (0, 0) (1, 0)) ''x'' = Some (0, 0)"
    "get_pattern_value_map (neox_match (0, 0) (1, 0)) ''x_or_cos1'' = Some (0, 0)"
    "get_pattern_value_map (neox_match (0, 0) (1, 0)) ''x_or_cos2'' = Some (1, 0)"
    "get_pattern_value_map (neox_match (0, 0) (1, 0)) ''mul_cos'' = Some (9, 0)"
    "9 < length (nodes neox_state)"
    "get_pattern_value_map (neox_match (0, 0) (1, 0)) ''t_sin'' = Some (2, 0)"
    "\<forall>k \<in> set [''x2neg'', ''x_rotate_half'', ''mul_sin'', ''result''].
        get_pattern_value_map (neox_match (0, 0) (1, 0)) k \<noteq> None"
    "get_symbols (neox_match (0, 0) (1, 0)) ''half_ndims'' = SymInt 32"
    "get_match_root (neox_match (0, 0) (1, 0)) < length (nodes neox_state)"
    "fst (0 :: nat, 0 :: nat) \<noteq> get_match_root (neox_match (0, 0) (1, 0))"
    "fst (1 :: nat, 0 :: nat) \<noteq> get_match_root (neox_match (0, 0) (1, 0))"
    "fst (2 :: nat, 0 :: nat) \<noteq> get_match_root (neox_match (0, 0) (1, 0))"
    "get_match_root (neox_match (0, 0) (1, 0)) = 11"
    by (simp_all add: neox_match_def len)
  from C2_gptneox_operand_order [OF m(1) m(2) m(3) m(4) m(5) ops m(6) m(7) m(8) m(9) m(10) m(11) m(12),
      THEN conjunct2, THEN conjunct2, THEN conjunct2, THEN conjunct1, rule_format]
  obtain st1 st2 where r:
    "RoPEFusionGPTNEOX_callback neox_state (neox_match (0, 0) (1, 0)) = Some (True, st1)"
    "RoPEFusionGPTNEOX_callback (swap_operands 9 neox_state)
       (swap_x_or_cos (neox_match (0, 0) (1, 0))) = Some (True, st2)"
    "nodes st2 ! length (nodes neox_state) = nodes st1 ! length (nodes neox_state)"
    "node_op (nodes st1 ! length (nodes neox_state)) =
       RoPE (default_Config\<lparr>rotary_ndims := 2 * 32\<rparr>)"
    "inputs (nodes st1 ! length (nodes neox_state)) =
       [(0, 0), if (0 :: nat, 0 :: nat) = (0, 0) then (1, 0) else (0, 0), (2, 0)]"
    "\<forall>c < length (nodes neox_state).
        node_op (nodes st1 ! c) = node_op (nodes neox_state ! c) \<and>
        inputs (nodes st1 ! c) =
          map (rewire (get_match_root (neox_match (0, 0) (1, 0))) (length (nodes neox_state)))
            (inputs (nodes neox_state ! c)) \<and>
        node_op (nodes st2 ! c) = node_op (nodes neox_state ! c) \<and>
        inputs (nodes st2 ! c) =
          map (rewire (get_match_root (neox_match (0, 0) (1, 0))) (length (nodes neox_state)))
            (inputs (nodes (swap_operands 9 neox_state) ! c))"
    "new_nodes st1 = new_nodes neox_state @ [length (nodes neox_state)]"
    "new_nodes st2 = new_nodes neox_state @ [length (nodes neox_state)]"
    by blast
  from r(6) [rule_format, of 12]
  have c: "inputs (nodes st1 ! 12) = [(13, 0)]" "inputs (nodes st2 ! 12) = [(13, 0)]"
    by (simp_all add: len res neox_match_def rewire_def)
  have sw: "inputs (nodes (swap_operands 9 neox_state) ! 9) = [(1, 0), (0, 0)]"
    using ops m(5) by (simp add: swap_operands_def update_node_def)
  from r c ops sw res(1) show ?thesis
    by (simp add: len new)
qed

subsection \<open>Symbol relations in RoPEFusionGPTJ and RoPEFusionQwen\<close>

text \<open>
  C4: when the symbols of a match of the GPT-J pattern resolve to integers with
  \<open>2 * (ndims/2) \<noteq> ndims\<close>, the callback of RoPEFusionGPTJ returns false and leaves the
  state of the pass, the model included, as it was. When the symbols of a match of the
  Qwen pattern resolve to integers with \<open>2 * (head_size/2) \<noteq> head_size\<close> or
  \<open>head_cnt * head_size\<close> different from the symbol of the product, the callback of
  RoPEFusionQwen does the same (for either split output). The callback returns normally,
  so the pass goes on with the next candidate. The products are the ones the code
  computes, on \<^verbatim>\<open>int64_t\<close>.
\<close>

theorem C4_symbol_relation_rejected:
  "(get_symbols m ''ndims'' = SymInt ndims \<and>
    get_symbols m ''ndims/2'' = SymInt ndims_half \<and>
    ndims_half * 2 \<noteq> ndims
    \<longrightarrow> RoPEFusionGPTJ_callback st m = Some (False, st)) \<and>
   (get_symbols m ''head_cnt'' = SymInt hc \<and>
    get_symbols m ''head_size'' = SymInt hs \<and>
    get_symbols m ''head_size/2'' = SymInt hs_half \<and>
    get_symbols m ''head_cnt*head_size'' = SymInt hc_by_hs \<and>
    (hs_half * 2 \<noteq> hs \<or> hc * hs \<noteq> hc_by_hs)
    \<longrightarrow> RoPEFusionQwen_callback split_output_id st m = Some (False, st))"
  by (auto simp add: RoPEFusionGPTJ_callback_def RoPEFusionQwen_callback_def)

theorem C4_symbol_relation_rejected_witness:
  "RoPEFusionGPTJ_callback (gptj_state [0, 2, 1, 3]) (gptj_match 64 31) =
     Some (False, gptj_state [0, 2, 1, 3]) \<and>
   RoPEFusionQwen_callback 0 qwen_state (qwen_match 32 128 63 4096) =
     Some (False, qwen_state) \<and>
   RoPEFusionQwen_callback 1 qwen_state (qwen_match 32 128 64 4000) =
     Some (False, qwen_state)"
  using C4_symbol_relation_rejected [where m = "gptj_match 64 31" and ndims = 64
      and ndims_half = 31 and st = "gptj_state [0, 2, 1, 3]"]
    C4_symbol_relation_rejected [where m = "qwen_match 32 128 63 4096" and hc = 32
      and hs = 128 and hs_half = 63 and hc_by_hs = 4096 and split_output_id = 0
      and st = qwen_state]
    C4_symbol_relation_rejected [where m = "qwen_match 32 128 64 4000" and hc = 32
      and hs = 128 and hs_half = 64 and hc_by_hs = 4000 and split_output_id = 1
      and st = qwen_state]
  by (simp add: gptj_match_def qwen_match_def)

text \<open>
  The same relations read on the integers: as long as the products do not overflow
  \<^verbatim>\<open>int64_t\<close>, the comparison the code makes is the comparison of the signed values.
\<close>

lemma int64_double_neq:
  fixes h n :: "64 word"
  assumes "- (2 ^ 62) \<le> sint h" "sint h < 2 ^ 62"
  shows "(h * 2 \<noteq> n) = (sint h * 2 \<noteq> sint n)"
proof -
  have "sint (h * 2) = sint h * 2"
    using assms by (simp add: sint_word_ariths signed_take_bit_int_eq_self)
  then show ?thesis
    by (simp add: word_eq_iff_signed [where ?'a = int])
qed

lemma int64_product_neq:
  fixes a b p :: "64 word"
  assumes "- (2 ^ 63) \<le> sint a * sint b" "sint a * sint b < 2 ^ 63"
  shows "(a * b \<noteq> p) = (sint a * sint b \<noteq> sint p)"
proof -
  have "sint (a * b) = sint a * sint b"
    using assms by (simp add: sint_word_ariths signed_take_bit_int_eq_self)
  then show ?thesis
    by (simp add: word_eq_iff_signed [where ?'a = int])
qed

subsection \<open>RoPEFusionChatGLM\<close>

lemma cast_int_sint: "cast_int a = Some x \<Longrightarrow> sint x = a"
  by (auto simp add: cast_int_def sint_sbintrunc' signed_take_bit_int_eq_self split: if_splits)

lemma chatglm_validate_True:
  assumes "chatglm_validate_reshape_symbols v = Some True"
  shows "(v ''A'' = - 1 \<and> v ''B'' = v ''head_cnt'' \<and> v ''C'' = 1) \<or>
         (v ''A'' = 1 \<and> v ''B'' = - 1 \<and> v ''C'' = v ''head_cnt'') \<or>
         (v ''A'' = 0 \<and> v ''B'' = 0 \<and> v ''C'' = 0)"
proof -
  from assms obtain A B C hc where c:
    "cast_int (v ''A'') = Some A" "cast_int (v ''B'') = Some B"
    "cast_int (v ''C'') = Some C" "cast_int (v ''head_cnt'') = Some hc"
    and t: "(A = - 1 \<and> B = hc \<and> C = 1) \<or> (A = 1 \<and> B = - 1 \<and> C = hc) \<or>
            (A = 0 \<and> B = 0 \<and> C = 0)"
    by (auto simp add: chatglm_validate_reshape_symbols_def bind_eq_Some_conv split: if_splits)
  note s = c [THEN cast_int_sint]
  from t show ?thesis
  proof (elim disjE conjE)
    assume "A = - 1" "B = hc" "C = 1"
    with s show ?thesis by auto
  next
    assume "A = 1" "B = - 1" "C = hc"
    with s show ?thesis by auto
  next
    assume "A = 0" "B = 0" "C = 0"
    with s show ?thesis by auto
  qed
qed

lemma chatglm_validate_False:
  assumes r: "\<forall>k \<in> set [''A'', ''B'', ''C'', ''head_cnt'']. - (2 ^ 31) \<le> v k \<and> v k < 2 ^ 31"
    and n: "\<not> ((v ''A'' = - 1 \<and> v ''B'' = v ''head_cnt'' \<and> v ''C'' = 1) \<or>
         (v ''A'' = 1 \<and> v ''B'' = - 1 \<and> v ''C'' = v ''head_cnt'') \<or>
         (v ''A'' = 0 \<and> v ''B'' = 0 \<and> v ''C'' = 0))"
  shows "chatglm_validate_reshape_symbols v = Some False"
proof -
  from r obtain A B C hc where c:
    "cast_int (v ''A'') = Some A" "cast_int (v ''B'') = Some B"
    "cast_int (v ''C'') = Some C" "cast_int (v ''head_cnt'') = Some hc"
    by (auto simp add: cast_int_def)
  then have "\<exists>b. chatglm_validate_reshape_symbols v = Some b"
    by (auto simp add: chatglm_validate_reshape_symbols_def)
  then obtain b where b: "chatglm_validate_reshape_symbols v = Some b"
    by blast
  show ?thesis
  proof (cases b)
    case True
    with b have "chatglm_validate_reshape_symbols v = Some True" by simp
    from chatglm_validate_True [OF this] n show ?thesis by simp
  next
    case False
    with b show ?thesis by simp
  qed
qed

lemma chatglm_callback_True:
  assumes "RoPEFusionChatGLM_callback split_output_id support_2d st m = Some (True, st')"
  shows "chatglm_validate_reshape_symbols (validator m) = Some True"
proof (cases "chatglm_validate_reshape_symbols (validator m)")
  case None
  with assms show ?thesis
    by (simp add: RoPEFusionChatGLM_callback_def Let_def split: if_splits)
next
  case (Some a)
  with assms show ?thesis
    by (cases a) (simp_all add: RoPEFusionChatGLM_callback_def Let_def split: if_splits)
qed

lemma chatglm_callback_False:
  assumes "chatglm_validate_reshape_symbols (validator m) = Some False"
  shows "RoPEFusionChatGLM_callback split_output_id support_2d st m = Some (False, st)"
  using assms by (simp add: RoPEFusionChatGLM_callback_def Let_def)

text \<open>
  C9: the callback of RoPEFusionChatGLM fuses (returns true) only when the symbols
  \<open>A\<close>, \<open>B\<close>, \<open>C\<close> of the reshapes \<^verbatim>\<open>y_even\<close> and \<^verbatim>\<open>y_odd\<close> form one of
  the triples \<open>(-1, head_cnt, 1)\<close>, \<open>(1, -1, head_cnt)\<close>, \<open>(0, 0, 0)\<close>; for any
  other triple (of values that fit \<^verbatim>\<open>int\<close>, to which the code converts them) it
  returns false and leaves the state of the pass as it was.
\<close>

theorem C9_chatglm_reshape_triples:
  "(RoPEFusionChatGLM_callback split_output_id support_2d st m = Some (True, st') \<longrightarrow>
      (validator m ''A'' = - 1 \<and> validator m ''B'' = validator m ''head_cnt'' \<and>
       validator m ''C'' = 1) \<or>
      (validator m ''A'' = 1 \<and> validator m ''B'' = - 1 \<and>
       validator m ''C'' = validator m ''head_cnt'') \<or>
      (validator m ''A'' = 0 \<and> validator m ''B'' = 0 \<and> validator m ''C'' = 0)) \<and>
   ((\<forall>k \<in> set [''A'', ''B'', ''C'', ''head_cnt''].
        - (2 ^ 31) \<le> validator m k \<and> validator m k < 2 ^ 31) \<and>
    \<not> ((validator m ''A'' = - 1 \<and> validator m ''B'' = validator m ''head_cnt'' \<and>
         validator m ''C'' = 1) \<or>
        (validator m ''A'' = 1 \<and> validator m ''B'' = - 1 \<and>
         validator m ''C'' = validator m ''head_cnt'') \<or>
        (validator m ''A'' = 0 \<and> validator m ''B'' = 0 \<and> validator m ''C'' = 0))
    \<longrightarrow> RoPEFusionChatGLM_callback split_output_id support_2d st m = Some (False, st))"
proof (intro conjI impI)
  assume "RoPEFusionChatGLM_callback split_output_id support_2d st m = Some (True, st')"
  then have "chatglm_validate_reshape_symbols (validator m) = Some True"
    by (rule chatglm_callback_True)
  then show "(validator m ''A'' = - 1 \<and> validator m ''B'' = validator m ''head_cnt'' \<and>
       validator m ''C'' = 1) \<or>
      (validator m ''A'' = 1 \<and> validator m ''B'' = - 1 \<and>
       validator m ''C'' = validator m ''head_cnt'') \<or>
      (validator m ''A'' = 0 \<and> validator m ''B'' = 0 \<and> validator m ''C'' = 0)"
    by (rule chatglm_validate_True)
next
  assume h: "(\<forall>k \<in> set [''A'', ''B'', ''C'', ''head_cnt''].
        - (2 ^ 31) \<le> validator m k \<and> validator m k < 2 ^ 31) \<and>
    \<not> ((validator m ''A'' = - 1 \<and> validator m ''B'' = validator m ''head_cnt'' \<and>
         validator m ''C'' = 1) \<or>
        (validator m ''A'' = 1 \<and> validator m ''B'' = - 1 \<and>
         validator m ''C'' = validator m ''head_cnt'') \<or>
        (validator m ''A'' = 0 \<and> validator m ''B'' = 0 \<and> validator m ''C'' = 0))"
  then have "chatglm_validate_reshape_symbols (validator m) = Some False"
    by (intro chatglm_validate_False) blast+
  then show "RoPEFusionChatGLM_callback split_output_id support_2d st m = Some (False, st)"
    by (rule chatglm_callback_False)
qed

theorem C9_chatglm_reshape_triples_witness:
  "(\<exists>st'. RoPEFusionChatGLM_callback 1 False chatglm_state (chatglm_match (- 1) 32 1) =
            Some (True, st')) \<and>
   RoPEFusionChatGLM_callback 1 False chatglm_state (chatglm_match 1 1 32) =
     Some (False, chatglm_state)"
proof -
  have "\<exists>st'. RoPEFusionChatGLM_callback 1 False chatglm_state (chatglm_match (- 1) 32 1) =
            Some (True, st')"
    by (simp add: RoPEFusionChatGLM_callback_def chatglm_validate_reshape_symbols_def
        chatglm_match_def chatglm_state_def cast_int_def cast_size_t_def get_node_def
        input_value_def make_RoPE_def plain_node_def Let_def)
  moreover have "RoPEFusionChatGLM_callback 1 False chatglm_state (chatglm_match 1 1 32) =
     Some (False, chatglm_state)"
    using C9_chatglm_reshape_triples [where m = "chatglm_match 1 1 32" and st = chatglm_state
        and split_output_id = 1 and support_2d = False]
    by (simp add: chatglm_match_def)
  ultimately show ?thesis by blast
qed

subsection \<open>RoPEFusionPreprocess\<close>

lemma set_argument_0: "inputs (set_argument 0 v n) = v # tl (inputs n)"
  by (cases "inputs n") (simp_all add: set_argument_def)

lemma set_argument_other:
  "node_op (set_argument k v n) = node_op n"
  "friendly_name (set_argument k v n) = friendly_name n"
  "rt_info (set_argument k v n) = rt_info n"
  by (simp_all add: set_argument_def)

text \<open>
  C6: when the callback of RoPEFusionPreprocess rewrites a fused RoPE node (returns true),
  the node is still a RoPE node and its configuration is the previous one except for
  \<open>slice_start\<close>, \<open>slice_stop\<close> and \<open>input_trans0213\<close>: in particular
  \<open>rotary_ndims\<close>, \<open>head_cnt\<close>, \<open>head_size\<close>, \<open>is_interleaved\<close>,
  \<open>is_chatglm\<close>, \<open>is_qwen\<close> and \<open>gather_position_arg_id\<close> are preserved.
  \<open>input_trans0213\<close> is set; the slice window is set from the symbols when an input
  slice was matched and is left alone otherwise. The data argument of the node is
  redirected to the input of the slice or of the transpose, its other arguments and every
  other node of the model stay as they were.
\<close>

theorem C6_preprocess_preserves_config:
  assumes r: "RoPEFusionPreprocess_callback st m = Some (True, st')"
    and cfg: "as_RoPE (nodes st ! get_match_root m) = Some config"
  shows "\<exists>config' data.
           node_op (nodes st' ! get_match_root m) = RoPE config' \<and>
           rotary_ndims config' = rotary_ndims config \<and>
           head_cnt config' = head_cnt config \<and>
           head_size config' = head_size config \<and>
           is_interleaved config' = is_interleaved config \<and>
           is_chatglm config' = is_chatglm config \<and>
           is_qwen config' = is_qwen config \<and>
           gather_position_arg_id config' = gather_position_arg_id config \<and>
           config' = config\<lparr>slice_start := slice_start config',
                             slice_stop := slice_stop config',
                             input_trans0213 := True\<rparr> \<and>
           (if count (get_pattern_value_map m) ''input_to_slice''
            then cast_size_t (validator m ''slice_start'') = Some (slice_start config') \<and>
                 cast_size_t (validator m ''slice_stop'') = Some (slice_stop config') \<and>
                 get_pattern_value_map m ''input_to_slice'' = Some data
            else slice_start config' = slice_start config \<and>
                 slice_stop config' = slice_stop config \<and>
                 get_pattern_value_map m ''input_to_trans'' = Some data) \<and>
           inputs (nodes st' ! get_match_root m) =
             data # tl (inputs (nodes st ! get_match_root m)) \<and>
           length (nodes st') = length (nodes st) \<and>
           (\<forall>c < length (nodes st). c \<noteq> get_match_root m \<longrightarrow> nodes st' ! c = nodes st ! c)"
proof -
  from r have root: "get_match_root m < length (nodes st)"
    by (auto simp add: RoPEFusionPreprocess_callback_def get_node_def bind_eq_Some_conv Let_def
        split: if_splits)
  show ?thesis
    using r cfg root
    by (auto simp add: RoPEFusionPreprocess_callback_def get_node_def bind_eq_Some_conv
        count_def update_node_def register_new_node_def set_argument_0 set_argument_other
        Let_def
        split: if_splits option.splits)
qed

theorem C6_preprocess_preserves_config_witness:
  "\<exists>st' config'.
     RoPEFusionPreprocess_callback preprocess_state preprocess_match = Some (True, st') \<and>
     node_op (nodes st' ! 6) = RoPE config' \<and>
     rotary_ndims config' = 64 \<and> head_cnt config' = 32 \<and> head_size config' = 128 \<and>
     gather_position_arg_id config' = 3 \<and>
     slice_start config' = 128 \<and> slice_stop config' = 256 \<and>
     inputs (nodes st' ! 6) = [(0, 0), (4, 0), (5, 0)]"
proof -
  have "\<exists>st'. RoPEFusionPreprocess_callback preprocess_state preprocess_match = Some (True, st')"
    by (simp add: RoPEFusionPreprocess_callback_def preprocess_state_def preprocess_match_def
        get_node_def count_def cast_size_t_def Let_def)
  then obtain st' where
    r: "RoPEFusionPreprocess_callback preprocess_state preprocess_match = Some (True, st')"
    by blast
  have root: "get_match_root preprocess_match = 6"
    by (simp add: preprocess_match_def)
  have node: "nodes preprocess_state ! 6 =
      \<lparr>node_op = RoPE (default_Config\<lparr>rotary_ndims := 64, head_cnt := 32, head_size := 128,
                                      gather_position_arg_id := 3\<rparr>),
       inputs = [(3, 0), (4, 0), (5, 0)], friendly_name = ''rope'', rt_info = [0]\<rparr>"
    by (simp add: preprocess_state_def)
  have cfg: "as_RoPE (nodes preprocess_state ! get_match_root preprocess_match) =
      Some (default_Config\<lparr>rotary_ndims := 64, head_cnt := 32, head_size := 128,
                            gather_position_arg_id := 3\<rparr>)"
    by (simp add: root node)
  have pm: "count (get_pattern_value_map preprocess_match) ''input_to_slice''"
    "get_pattern_value_map preprocess_match ''input_to_slice'' = Some (0, 0)"
    "cast_size_t (validator preprocess_match ''slice_start'') = Some 128"
    "cast_size_t (validator preprocess_match ''slice_stop'') = Some 256"
    by (simp_all add: preprocess_match_def count_def cast_size_t_def)
  from C6_preprocess_preserves_config [OF r cfg] r show ?thesis
    by (auto simp add: root node pm)
qed

subsection \<open>RoPEShareCosSin\<close>

lemma upt_0_2: "[0 ..< 2] = [0, Suc 0]"
  by (simp add: numeral_2_eq_2)

lemma memcmp_eq_same_length:
  "length a = length b \<Longrightarrow> memcmp_eq a b (length b) = Some (a = b)"
  by (simp add: memcmp_eq_def)

lemma check_shared_inputs_pair:
  assumes "pm ''inputs[0]'' = Some input_a" "pm ''inputs[1]'' = Some input_b"
  shows "check_shared_inputs pm [0 ..< 2] [shared_a, shared_b] =
           Some (shared_a = Some (fst input_a) \<and> shared_b = Some (fst input_b))"
  using assms by (auto simp add: upt_0_2 inputs_key_def at_index_def)

lemma collect_shared_inputs_pair:
  assumes "pm ''inputs[0]'' = Some input_a" "pm ''inputs[1]'' = Some input_b"
  shows "collect_shared_inputs pm [0 ..< 2] [shared_a, shared_b] =
           Some ([Some (fst input_a), Some (fst input_b)], True)"
  using assms by (simp add: upt_0_2 inputs_key_def)

lemma RoPEShareCosSin_callback_later:
  assumes ok: "validator_ok m"
    and it: "get_pattern_value_map m ''const_inv_freq'' = Some it"
      "fst it < length (nodes st)" "as_Constant (nodes st ! fst it) = Some cur"
    and input_a: "get_pattern_value_map m ''inputs[0]'' = Some input_a"
    and input_b: "get_pattern_value_map m ''inputs[1]'' = Some input_b"
    and shared: "m_shared_inputs s = [shared_a, shared_b]"
  shows
    "(m_inv_freq s = Some f \<and> f < length (nodes st) \<and>
      as_Constant (nodes st ! f) = Some first_seen \<and>
      (get_element_type cur = get_element_type first_seen \<and>
       get_shape cur = get_shape first_seen \<longrightarrow>
       length (get_data cur) = length (get_data first_seen))
      \<longrightarrow>
      RoPEShareCosSin_callback s st m =
        (let identical =
               (get_element_type cur = get_element_type first_seen \<and>
                get_shape cur = get_shape first_seen \<and>
                get_data cur = get_data first_seen \<and>
                shared_a = Some (fst input_a) \<and> shared_b = Some (fst input_b));
             is_sin = (get_pattern_value_map m ''sin_Sin'' \<noteq> None);
             root = get_match_root m
         in case (if is_sin then m_shared_sin0 s else m_shared_cos0 s) of
              Some seed \<Rightarrow>
                if identical then Some (True, s, replace_node root seed st)
                else Some (False, s, st)
            | None \<Rightarrow>
                if identical
                then Some (False,
                           if is_sin then s\<lparr>m_shared_sin0 := Some root\<rparr>
                           else s\<lparr>m_shared_cos0 := Some root\<rparr>,
                           st)
                else Some (False, s, st)))"
  using assms
  by (auto simp add: RoPEShareCosSin_callback_def get_node_def Let_def get_byte_size_def
      check_shared_inputs_pair memcmp_eq_same_length memcmp_eq_def split: option.splits)


lemma RoPEShareCosSin_callback_first:
  assumes ok: "validator_ok m"
    and it: "get_pattern_value_map m ''const_inv_freq'' = Some it"
      "fst it < length (nodes st)" "as_Constant (nodes st ! fst it) = Some cur"
    and input_a: "get_pattern_value_map m ''inputs[0]'' = Some input_a"
    and input_b: "get_pattern_value_map m ''inputs[1]'' = Some input_b"
    and shared: "m_shared_inputs s = [shared_a, shared_b]"
    and none: "m_inv_freq s = None" "m_shared_cos0 s = None" "m_shared_sin0 s = None"
  shows "RoPEShareCosSin_callback s st m =
           Some (False,
                 (let s' = s\<lparr>m_shared_inputs := [Some (fst input_a), Some (fst input_b)],
                              m_inv_freq := Some (fst it)\<rparr>
                  in if get_pattern_value_map m ''sin_Sin'' \<noteq> None
                     then s'\<lparr>m_shared_sin0 := Some (get_match_root m)\<rparr>
                     else s'\<lparr>m_shared_cos0 := Some (get_match_root m)\<rparr>),
                 st)"
  using assms
  by (simp add: RoPEShareCosSin_callback_def get_node_def Let_def get_byte_size_def
      check_shared_inputs_pair collect_shared_inputs_pair memcmp_eq_def numeral_2_eq_2 [symmetric])

lemma collect_shared_inputs_length:
  "collect_shared_inputs pm ks shared = Some (shared', fin) \<Longrightarrow> length shared' = length shared"
  by (induction ks arbitrary: shared) (auto split: option.splits)

lemma replace_node_keeps:
  "length (nodes (replace_node a b st)) = length (nodes st)"
  "n < length (nodes st) \<Longrightarrow> node_op (nodes (replace_node a b st) ! n) = node_op (nodes st ! n)"
  by (simp_all add: replace_node_def)

lemma share_invariant_init: "share_invariant RoPEShareCosSin_init st"
  by (simp add: share_invariant_def RoPEShareCosSin_init_def)

lemma share_invariant_step:
  assumes "share_invariant s st" "RoPEShareCosSin_callback s st m = Some (b, s', st')"
  shows "share_invariant s' st'"
  using assms
  apply (cases "m_inv_freq s")
  apply (auto simp add: share_invariant_def RoPEShareCosSin_callback_def Let_def get_node_def
      bind_eq_Some_conv replace_node_keeps
      dest!: collect_shared_inputs_length split: if_splits option.splits)
  done

lemma share_state_nodes:
  "length (nodes share_state) = 38"
  "as_Constant (nodes share_state ! 2) = Some (inv_freq_data [0, 0, 128, 63, 0, 0, 0, 63])"
  "as_Constant (nodes share_state ! 12) = Some (inv_freq_data [0, 0, 128, 63, 0, 0, 128, 62])"
  "as_Constant (nodes share_state ! 22) = Some (inv_freq_data [0, 0, 128, 63, 0, 0, 0, 63])"
  by (simp_all add: share_state_def table_preparation_def const_node_def nth_append)

text \<open>
  C5, counterexample to "the first match of each branch records its root as the seed":
  after the cosine branch of preparation A has matched first (and recorded its constant,
  the shared inputs and its root 9 as the cosine seed), the first match of the sine branch
  is the one of preparation B, whose constant has other bytes. The callback returns false
  and records nothing: the sine seed stays empty.
\<close>

theorem C5_first_match_counterexample:
  "RoPEShareCosSin_callback RoPEShareCosSin_init share_state (share_match 2 False) =
     Some (False, share_after_cos_A, share_state) \<and>
   m_shared_sin0 share_after_cos_A = None \<and>
   get_pattern_value_map (share_match 12 True) ''sin_Sin'' = Some (20, 0) \<and>
   get_match_root (share_match 12 True) = 21 \<and>
   RoPEShareCosSin_callback share_after_cos_A share_state (share_match 12 True) =
     Some (False, share_after_cos_A, share_state)"
proof -
  have 1: "RoPEShareCosSin_callback RoPEShareCosSin_init share_state (share_match 2 False) =
     Some (False, share_after_cos_A, share_state)"
    using RoPEShareCosSin_callback_first [where m = "share_match 2 False" and st = share_state
        and s = RoPEShareCosSin_init and it = "(2, 0)" and input_a = "(0, 0)" and input_b = "(1, 0)"
        and shared_a = None and shared_b = None
        and cur = "inv_freq_data [0, 0, 128, 63, 0, 0, 0, 63]"]
    by (simp add: share_state_nodes share_match_def RoPEShareCosSin_init_def
        share_after_cos_A_def inv_freq_data_def del: as_Constant.simps)
  have 2: "RoPEShareCosSin_callback share_after_cos_A share_state (share_match 12 True) =
     Some (False, share_after_cos_A, share_state)"
    using RoPEShareCosSin_callback_later [where m = "share_match 12 True" and st = share_state
        and s = share_after_cos_A and it = "(12, 0)" and input_a = "(0, 0)" and input_b = "(1, 0)"
        and shared_a = "Some 0" and shared_b = "Some 1" and f = 2 and cur = "inv_freq_data [0, 0, 128, 63, 0, 0, 128, 62]"
        and first_seen = "inv_freq_data [0, 0, 128, 63, 0, 0, 0, 63]"]
    by (simp add: share_state_nodes share_match_def share_after_cos_A_def inv_freq_data_def
        del: as_Constant.simps)
  from 1 2 show ?thesis
    by (simp add: share_after_cos_A_def share_match_def)
qed

text \<open>
  C5: for a match whose inverse-frequency constant and two shared inputs are bound
  (the constant \<open>cur\<close> of a byte size that its type and shape determine), call the
  match identical when \<open>cur\<close> has the element type, the shape and byte for byte the
  content of the first-seen constant, and each of the two shared inputs is the node first
  seen. Once a first-seen constant is recorded:
  \<^item> if the seed of the branch of the match (cosine or sine) is recorded, the root is
    replaced by the seed and the callback returns true if and only if the match is
    identical; otherwise the callback returns false and nothing changes;
  \<^item> if the seed of the branch is not recorded yet, the callback returns false and the
    model is unchanged; it records the root as the seed of the branch when the match is
    identical, and records nothing when it is not.
  The very first match of the pass records its constant and inputs as the first seen, and
  its root as the seed of its branch, and returns false with the model unchanged.
\<close>

theorem C5_share_cos_sin:
  assumes ok: "validator_ok m"
    and it: "get_pattern_value_map m ''const_inv_freq'' = Some it"
      "fst it < length (nodes st)" "as_Constant (nodes st ! fst it) = Some cur"
    and input_a: "get_pattern_value_map m ''inputs[0]'' = Some input_a"
    and input_b: "get_pattern_value_map m ''inputs[1]'' = Some input_b"
    and shared: "m_shared_inputs s = [shared_a, shared_b]"
  shows
    "(m_inv_freq s = Some f \<and> f < length (nodes st) \<and>
      as_Constant (nodes st ! f) = Some first_seen \<and>
      (get_element_type cur = get_element_type first_seen \<and>
       get_shape cur = get_shape first_seen \<longrightarrow>
       length (get_data cur) = length (get_data first_seen))
      \<longrightarrow>
      RoPEShareCosSin_callback s st m =
        (let identical =
               (get_element_type cur = get_element_type first_seen \<and>
                get_shape cur = get_shape first_seen \<and>
                get_data cur = get_data first_seen \<and>
                shared_a = Some (fst input_a) \<and> shared_b = Some (fst input_b));
             is_sin = (get_pattern_value_map m ''sin_Sin'' \<noteq> None);
             root = get_match_root m
         in case (if is_sin then m_shared_sin0 s else m_shared_cos0 s) of
              Some seed \<Rightarrow>
                if identical then Some (True, s, replace_node root seed st)
                else Some (False, s, st)
            | None \<Rightarrow>
                if identical
                then Some (False,
                           if is_sin then s\<lparr>m_shared_sin0 := Some root\<rparr>
                           else s\<lparr>m_shared_cos0 := Some root\<rparr>,
                           st)
                else Some (False, s, st))) \<and>
     (m_inv_freq s = None \<and> m_shared_cos0 s = None \<and> m_shared_sin0 s = None
      \<longrightarrow>
      RoPEShareCosSin_callback s st m =
        Some (False,
              (let s' = s\<lparr>m_shared_inputs := [Some (fst input_a), Some (fst input_b)],
                           m_inv_freq := Some (fst it)\<rparr>
               in if get_pattern_value_map m ''sin_Sin'' \<noteq> None
                  then s'\<lparr>m_shared_sin0 := Some (get_match_root m)\<rparr>
                  else s'\<lparr>m_shared_cos0 := Some (get_match_root m)\<rparr>),
              st))"
  using RoPEShareCosSin_callback_later [OF assms, of f first_seen]
    RoPEShareCosSin_callback_first [OF assms]
  by blast

theorem C5_share_cos_sin_witness:
  "RoPEShareCosSin_callback RoPEShareCosSin_init share_state (share_match 2 False) =
     Some (False, share_after_cos_A, share_state) \<and>
   RoPEShareCosSin_callback share_after_cos_A share_state (share_match 2 True) =
     Some (False, share_after_cos_A\<lparr>m_shared_sin0 := Some 11\<rparr>, share_state) \<and>
   RoPEShareCosSin_callback share_after_cos_A share_state (share_match 22 False) =
     Some (True, share_after_cos_A, replace_node 29 9 share_state) \<and>
   RoPEShareCosSin_callback share_after_cos_A share_state (share_match 12 False) =
     Some (False, share_after_cos_A, share_state)"
proof -
  have 1: "RoPEShareCosSin_callback RoPEShareCosSin_init share_state (share_match 2 False) =
     Some (False, share_after_cos_A, share_state)"
    using C5_share_cos_sin [where m = "share_match 2 False" and st = share_state
        and s = RoPEShareCosSin_init and it = "(2, 0)" and input_a = "(0, 0)" and input_b = "(1, 0)"
        and shared_a = None and shared_b = None
        and cur = "inv_freq_data [0, 0, 128, 63, 0, 0, 0, 63]"]
    by (simp add: share_state_nodes share_match_def RoPEShareCosSin_init_def
        share_after_cos_A_def inv_freq_data_def del: as_Constant.simps)
  have 2: "RoPEShareCosSin_callback share_after_cos_A share_state (share_match 2 True) =
     Some (False, share_after_cos_A\<lparr>m_shared_sin0 := Some 11\<rparr>, share_state)"
    using C5_share_cos_sin [where m = "share_match 2 True" and st = share_state
        and s = share_after_cos_A and it = "(2, 0)" and input_a = "(0, 0)" and input_b = "(1, 0)"
        and shared_a = "Some 0" and shared_b = "Some 1" and f = 2 and cur = "inv_freq_data [0, 0, 128, 63, 0, 0, 0, 63]"
        and first_seen = "inv_freq_data [0, 0, 128, 63, 0, 0, 0, 63]"]
    by (simp add: share_state_nodes share_match_def share_after_cos_A_def inv_freq_data_def
        del: as_Constant.simps)
  have 3: "RoPEShareCosSin_callback share_after_cos_A share_state (share_match 22 False) =
     Some (True, share_after_cos_A, replace_node 29 9 share_state)"
    using C5_share_cos_sin [where m = "share_match 22 False" and st = share_state
        and s = share_after_cos_A and it = "(22, 0)" and input_a = "(0, 0)" and input_b = "(1, 0)"
        and shared_a = "Some 0" and shared_b = "Some 1" and f = 2 and cur = "inv_freq_data [0, 0, 128, 63, 0, 0, 0, 63]"
        and first_seen = "inv_freq_data [0, 0, 128, 63, 0, 0, 0, 63]"]
    by (simp add: share_state_nodes share_match_def share_after_cos_A_def inv_freq_data_def
        del: as_Constant.simps)
  have 4: "RoPEShareCosSin_callback share_after_cos_A share_state (share_match 12 False) =
     Some (False, share_after_cos_A, share_state)"
    using C5_share_cos_sin [where m = "share_match 12 False" and st = share_state
        and s = share_after_cos_A and it = "(12, 0)" and input_a = "(0, 0)" and input_b = "(1, 0)"
        and shared_a = "Some 0" and shared_b = "Some 1" and f = 2 and cur = "inv_freq_data [0, 0, 128, 63, 0, 0, 128, 62]"
        and first_seen = "inv_freq_data [0, 0, 128, 63, 0, 0, 0, 63]"]
    by (simp add: share_state_nodes share_match_def share_after_cos_A_def inv_freq_data_def
        del: as_Constant.simps)
  from 1 2 3 4 show ?thesis by blast
qed

text \<open>
  X1: the invariant of RoPEShareCosSin holds for the state the pass is constructed with,
  and every invocation of the callback that returns preserves it. Hence, whenever a seed
  is recorded, the first-seen inverse-frequency constant is recorded too and is a
  \<^verbatim>\<open>Constant\<close> of the model, and the shared inputs stay a pair.
\<close>

theorem share_invariant_preserved:
  "share_invariant RoPEShareCosSin_init st \<and>
   (share_invariant s st \<and> RoPEShareCosSin_callback s st m = Some (b, s', st')
    \<longrightarrow> share_invariant s' st')"
  using share_invariant_init [of st] share_invariant_step [of s st m b s' st']
  by blast

theorem share_invariant_preserved_witness:
  "share_invariant RoPEShareCosSin_init share_state \<and>
   RoPEShareCosSin_callback RoPEShareCosSin_init share_state (share_match 2 False) =
     Some (False, share_after_cos_A, share_state) \<and>
   share_invariant share_after_cos_A share_state"
proof -
  have 1: "RoPEShareCosSin_callback RoPEShareCosSin_init share_state (share_match 2 False) =
     Some (False, share_after_cos_A, share_state)"
    using RoPEShareCosSin_callback_first [where m = "share_match 2 False" and st = share_state
        and s = RoPEShareCosSin_init and it = "(2, 0)" and input_a = "(0, 0)"
        and input_b = "(1, 0)" and shared_a = None and shared_b = None
        and cur = "inv_freq_data [0, 0, 128, 63, 0, 0, 0, 63]"]
    by (simp add: share_state_nodes share_match_def RoPEShareCosSin_init_def
        share_after_cos_A_def inv_freq_data_def del: as_Constant.simps)
  from share_invariant_preserved [of share_state RoPEShareCosSin_init "share_match 2 False"
      False share_after_cos_A share_state] 1
  show ?thesis by blast
qed

subsection \<open>RoPEFusionGPTJ\<close>

lemma get_target_inputs_iff:
  "(c, j) \<in> set (get_target_inputs st out) \<longleftrightarrow>
     c < length (nodes st) \<and> j < length (inputs (nodes st ! c)) \<and>
     inputs (nodes st ! c) ! j = out"
  by (auto simp add: get_target_inputs_def)

lemma replace_source_output_nodes:
  "length (nodes (replace_source_output inp v st)) = length (nodes st)"
  "node_op (nodes (replace_source_output inp v st) ! c) = node_op (nodes st ! c)"
  "length (inputs (nodes (replace_source_output inp v st) ! c)) = length (inputs (nodes st ! c))"
  by (cases "fst inp = c"; cases "fst inp < length (nodes st)";
      simp add: replace_source_output_def update_node_def list_update_beyond)+

lemma replace_source_output_input:
  "inputs (nodes (replace_source_output inp v st) ! c) ! j = inputs (nodes st ! c) ! j \<or>
   inp = (c, j) \<and> inputs (nodes (replace_source_output inp v st) ! c) ! j = v"
  by (cases inp; cases "fst inp = c"; cases "fst inp < length (nodes st)";
      cases "snd inp = j"; cases "j < length (inputs (nodes st ! c))";
      simp add: replace_source_output_def update_node_def list_update_beyond)

lemma move_ShapeOf_nodes:
  "length (nodes (move_ShapeOf v tis st)) = length (nodes st) \<and>
   node_op (nodes (move_ShapeOf v tis st) ! c) = node_op (nodes st ! c) \<and>
   length (inputs (nodes (move_ShapeOf v tis st) ! c)) = length (inputs (nodes st ! c)) \<and>
   (inputs (nodes (move_ShapeOf v tis st) ! c) ! j = inputs (nodes st ! c) ! j \<or>
    (c, j) \<in> set tis \<and> node_op (nodes st ! c) = ShapeOf \<and>
    inputs (nodes (move_ShapeOf v tis st) ! c) ! j = v)"
proof (induction tis arbitrary: st)
  case Nil
  then show ?case by (simp add: move_ShapeOf_def)
next
  case (Cons inp tis)
  let ?st = "if is_ShapeOf (nodes st ! fst inp) then replace_source_output inp v st else st"
  have unfold: "move_ShapeOf v (inp # tis) st = move_ShapeOf v tis ?st"
    by (simp add: move_ShapeOf_def)
  have shapeof: "is_ShapeOf (nodes st ! c) \<Longrightarrow> node_op (nodes st ! c) = ShapeOf"
    by (simp split: Op.splits)
  have step: "length (nodes ?st) = length (nodes st)"
    "node_op (nodes ?st ! c) = node_op (nodes st ! c)"
    "length (inputs (nodes ?st ! c)) = length (inputs (nodes st ! c))"
    "inputs (nodes ?st ! c) ! j = inputs (nodes st ! c) ! j \<or>
     inp = (c, j) \<and> node_op (nodes st ! c) = ShapeOf \<and> inputs (nodes ?st ! c) ! j = v"
    using replace_source_output_input [of inp v st c j] shapeof
    by (auto simp add: replace_source_output_nodes simp del: is_ShapeOf.simps)
  from Cons.IH [of ?st] step show ?case
    unfolding unfold by (auto simp del: is_ShapeOf.simps)
qed

lemma fuse_output_transpose_absorb:
  assumes "get_target_inputs st (root, 0) = [(t, k)]"
    and "is_Transpose (nodes st ! t)"
    and "input_value (nodes st ! t) 1 = Some axes" "fst axes < length (nodes st)"
    and "as_Constant (nodes st ! fst axes) = Some c" "cast_vector_int64 c = [0, 2, 1, 3]"
  shows "fuse_output_transpose st config rt_from root =
           Some (config\<lparr>output_trans0213 := True\<rparr>, rt_from @ [t], t)"
proof -
  from assms(1) have "(t, k) \<in> set (get_target_inputs st (root, 0))" by simp
  then have "t < length (nodes st)" by (simp add: get_target_inputs_iff)
  with assms show ?thesis
    by (simp add: fuse_output_transpose_def get_node_def del: as_Constant.simps is_Transpose.simps)
qed

lemma fuse_output_transpose_keep:
  assumes "length (get_target_inputs st (root, 0)) \<noteq> 1 \<or>
     (\<exists>t k. get_target_inputs st (root, 0) = [(t, k)] \<and>
        (\<not> is_Transpose (nodes st ! t) \<or>
         (\<exists>axes. input_value (nodes st ! t) 1 = Some axes \<and> fst axes < length (nodes st) \<and>
            (\<forall>c. as_Constant (nodes st ! fst axes) = Some c \<longrightarrow>
                 cast_vector_int64 c \<noteq> [0, 2, 1, 3]))))"
  shows "fuse_output_transpose st config rt_from root = Some (config, rt_from, root)"
proof (cases "length (get_target_inputs st (root, 0)) = 1")
  case False
  then show ?thesis by (simp add: fuse_output_transpose_def)
next
  case True
  with assms obtain t k where tk: "get_target_inputs st (root, 0) = [(t, k)]"
    and alt: "\<not> is_Transpose (nodes st ! t) \<or>
         (\<exists>axes. input_value (nodes st ! t) 1 = Some axes \<and> fst axes < length (nodes st) \<and>
            (\<forall>c. as_Constant (nodes st ! fst axes) = Some c \<longrightarrow>
                 cast_vector_int64 c \<noteq> [0, 2, 1, 3]))"
    by blast
  from tk have "(t, k) \<in> set (get_target_inputs st (root, 0))" by simp
  then have t: "t < length (nodes st)" by (simp add: get_target_inputs_iff)
  from alt show ?thesis
  proof
    assume "\<not> is_Transpose (nodes st ! t)"
    with tk t show ?thesis
      by (simp add: fuse_output_transpose_def get_node_def del: is_Transpose.simps)
  next
    assume "\<exists>axes. input_value (nodes st ! t) 1 = Some axes \<and> fst axes < length (nodes st) \<and>
            (\<forall>c. as_Constant (nodes st ! fst axes) = Some c \<longrightarrow>
                 cast_vector_int64 c \<noteq> [0, 2, 1, 3])"
    then obtain axes where "input_value (nodes st ! t) 1 = Some axes"
      "fst axes < length (nodes st)"
      "\<forall>c. as_Constant (nodes st ! fst axes) = Some c \<longrightarrow> cast_vector_int64 c \<noteq> [0, 2, 1, 3]"
      by blast
    with tk t show ?thesis
      by (cases "as_Constant (nodes st ! fst axes)")
         (simp_all add: fuse_output_transpose_def get_node_def
            del: as_Constant.simps is_Transpose.simps)
  qed
qed


lemma replace_source_output_exact:
  "c < length (nodes st) \<Longrightarrow> j < length (inputs (nodes st ! c)) \<Longrightarrow>
   inputs (nodes (replace_source_output inp v st) ! c) ! j =
     (if inp = (c, j) then v else inputs (nodes st ! c) ! j)"
  by (cases inp; cases "fst inp = c"; cases "snd inp = j";
      simp add: replace_source_output_def update_node_def)

lemma move_ShapeOf_exact:
  "c < length (nodes st) \<Longrightarrow> j < length (inputs (nodes st ! c)) \<Longrightarrow>
   inputs (nodes (move_ShapeOf v tis st) ! c) ! j =
     (if (c, j) \<in> set tis \<and> is_ShapeOf (nodes st ! c) then v else inputs (nodes st ! c) ! j)"
proof (induction tis arbitrary: st)
  case Nil
  then show ?case by (simp add: move_ShapeOf_def)
next
  case (Cons inp tis)
  let ?st = "if is_ShapeOf (nodes st ! fst inp) then replace_source_output inp v st else st"
  have unfold: "move_ShapeOf v (inp # tis) st = move_ShapeOf v tis ?st"
    by (simp add: move_ShapeOf_def)
  have step: "c < length (nodes ?st)" "j < length (inputs (nodes ?st ! c))"
    "is_ShapeOf (nodes ?st ! c) = is_ShapeOf (nodes st ! c)"
    using Cons.prems by (simp_all add: replace_source_output_nodes)
  have inp: "inputs (nodes ?st ! c) ! j =
      (if inp = (c, j) \<and> is_ShapeOf (nodes st ! c) then v else inputs (nodes st ! c) ! j)"
    using Cons.prems by (auto simp add: replace_source_output_exact simp del: is_ShapeOf.simps)
  from Cons.IH [OF step(1) step(2)] show ?case
    unfolding unfold step(3) inp by (auto simp del: is_ShapeOf.simps)
qed

lemma get_target_inputs_eqI:
  assumes "length (nodes st') = length (nodes st)"
    and "\<And>c. c < length (nodes st) \<Longrightarrow>
           length (inputs (nodes st' ! c)) = length (inputs (nodes st ! c))"
    and "\<And>c j. c < length (nodes st) \<Longrightarrow> j < length (inputs (nodes st ! c)) \<Longrightarrow>
           (inputs (nodes st' ! c) ! j = out) = (inputs (nodes st ! c) ! j = out)"
  shows "get_target_inputs st' out = get_target_inputs st out"
proof -
  have inner: "filter (\<lambda>j. inputs (nodes st' ! c) ! j = out)
                 [0 ..< length (inputs (nodes st' ! c))] =
               filter (\<lambda>j. inputs (nodes st ! c) ! j = out)
                 [0 ..< length (inputs (nodes st ! c))]"
    if "c < length (nodes st)" for c
    unfolding assms(2) [OF that]
    by (rule filter_cong) (simp_all add: assms(3) [OF that])
  show ?thesis
    unfolding get_target_inputs_def assms(1)
    by (rule arg_cong [where f = concat], rule map_cong) (simp_all add: inner)
qed

lemma get_target_inputs_snoc:
  assumes "\<forall>j < length (inputs n). inputs n ! j \<noteq> out"
  shows "get_target_inputs (st\<lparr>nodes := nodes st @ [n]\<rparr>) out = get_target_inputs st out"
proof -
  have "filter (\<lambda>j. inputs n ! j = out) [0 ..< length (inputs n)] = []"
    using assms by (simp add: filter_empty_conv)
  then show ?thesis
    unfolding get_target_inputs_def
    by (auto simp add: nth_append intro!: arg_cong [where f = concat] map_cong filter_cong)
qed


lemma move_ShapeOf_new_nodes: "new_nodes (move_ShapeOf v tis st) = new_nodes st"
proof (induction tis arbitrary: st)
  case Nil
  then show ?case by (simp add: move_ShapeOf_def)
next
  case (Cons inp tis)
  let ?st = "if is_ShapeOf (nodes st ! fst inp) then replace_source_output inp v st else st"
  have unfold: "move_ShapeOf v (inp # tis) st = move_ShapeOf v tis ?st"
    by (simp add: move_ShapeOf_def)
  have "new_nodes ?st = new_nodes st"
    by (simp add: replace_source_output_def update_node_def)
  with Cons.IH [of ?st] show ?case
    unfolding unfold by simp
qed

lemma gptj_callback_result:
  assumes ndims: "get_symbols m ''ndims'' = SymInt n"
    and half: "get_symbols m ''ndims/2'' = SymInt h" "h * 2 = n"
    and bound: "\<forall>k \<in> set [''varsplit'', ''repeat_interleave_sin'', ''repeat_interleave_cos'',
                           ''neg_Multiply_1177'', ''stack_1182'', ''mul_cos'', ''mul_sin'',
                           ''result'']. get_pattern_value_map m k \<noteq> None"
    and re: "get_pattern_value_map m ''rotary_emb'' = Some re" "fst re < length (nodes st)"
    and v: "get_pattern_value_map m ''view_Reshape'' = Some v"
    and gsc: "get_pattern_value_map m ''gather_sin_cos'' = Some gsc"
    and root: "get_match_root m < length (nodes st)"
    and block: "\<And>cfg rt. fuse_output_transpose st cfg rt (get_match_root m) =
                  Some (upd cfg, rt @ extra, r)"
    and r: "r < length (nodes st)" "fst v \<noteq> r" "fst gsc \<noteq> r"
    and inner: "fst re \<noteq> r" "v \<noteq> (fst re, 0)" "gsc \<noteq> (fst re, 0)"
  shows "\<exists>st'. RoPEFusionGPTJ_callback st m = Some (True, st') \<and>
      length (nodes st') = Suc (length (nodes st)) \<and>
      node_op (nodes st' ! length (nodes st)) =
        RoPE ((upd (default_Config\<lparr>rotary_ndims := n\<rparr>))\<lparr>is_interleaved := True\<rparr>) \<and>
      inputs (nodes st' ! length (nodes st)) = [v, gsc, gsc] \<and>
      (\<forall>c < length (nodes st). node_op (nodes st' ! c) = node_op (nodes st ! c)) \<and>
      (\<forall>c < length (nodes st). \<forall>j < length (inputs (nodes st ! c)).
         fst (inputs (nodes st ! c) ! j) = r \<longrightarrow>
         inputs (nodes st' ! c) ! j = (length (nodes st), snd (inputs (nodes st ! c) ! j))) \<and>
      (\<forall>c < length (nodes st'). \<forall>j < length (inputs (nodes st' ! c)).
         fst (inputs (nodes st' ! c) ! j) \<noteq> r) \<and>
      (\<forall>c < length (nodes st).
         length (inputs (nodes st' ! c)) = length (inputs (nodes st ! c)) \<and>
         (\<forall>j < length (inputs (nodes st ! c)).
            inputs (nodes st' ! c) ! j =
              (if length (get_target_inputs st (fst re, 0)) = 2 \<and> is_ShapeOf (nodes st ! c) \<and>
                  inputs (nodes st ! c) ! j = (fst re, 0)
               then v else rewire r (length (nodes st)) (inputs (nodes st ! c) ! j)))) \<and>
      new_nodes st' = new_nodes st"
proof -
  from bound obtain varsplit ris ric neg stack mul_cos mul_sin result where b:
    "get_pattern_value_map m ''varsplit'' = Some varsplit"
    "get_pattern_value_map m ''repeat_interleave_sin'' = Some ris"
    "get_pattern_value_map m ''repeat_interleave_cos'' = Some ric"
    "get_pattern_value_map m ''neg_Multiply_1177'' = Some neg"
    "get_pattern_value_map m ''stack_1182'' = Some stack"
    "get_pattern_value_map m ''mul_cos'' = Some mul_cos"
    "get_pattern_value_map m ''mul_sin'' = Some mul_sin"
    "get_pattern_value_map m ''result'' = Some result"
    by auto
  define len where "len = length (nodes st)"
  define cfg where "cfg = (upd (default_Config\<lparr>rotary_ndims := n\<rparr>))\<lparr>is_interleaved := True\<rparr>"
  define rt where "rt = map fst [varsplit, ris, ric, neg, stack, mul_cos, mul_sin, re, result] @ extra"
  define st1 where "st1 =
    replace_node r len
      (copy_runtime_info rt len
        (set_friendly_name len (friendly_name (nodes st ! r))
          (fst (make_RoPE [v, gsc, gsc] cfg st))))"
  define st3 where "st3 =
    (if length (get_target_inputs st1 (fst re, 0)) = 2
     then move_ShapeOf v (get_target_inputs st1 (fst re, 0)) st1 else st1)"
  have nodes1: "nodes st1 =
      map (\<lambda>x. x\<lparr>inputs := map (rewire r len) (inputs x)\<rparr>)
        (nodes st @ [\<lparr>node_op = RoPE cfg, inputs = [v, gsc, gsc],
                      friendly_name = friendly_name (nodes st ! r), rt_info = rt\<rparr>])"
    by (simp add: st1_def replace_node_def copy_runtime_info_def set_friendly_name_def
        make_RoPE_def update_node_def len_def)
  have len1: "length (nodes st1) = Suc len"
    by (simp add: nodes1 len_def)
  have old1: "node_op (nodes st1 ! c) = node_op (nodes st ! c)"
    "inputs (nodes st1 ! c) = map (rewire r len) (inputs (nodes st ! c))" if "c < len" for c
    using that by (simp_all add: nodes1 len_def nth_append)
  have new1: "node_op (nodes st1 ! len) = RoPE cfg" "inputs (nodes st1 ! len) = [v, gsc, gsc]"
    using r by (simp_all add: nodes1 len_def nth_append rewire_def)
  have cb: "RoPEFusionGPTJ_callback st m = Some (True, st3)"
    using ndims half b re v gsc root r
    by (simp add: RoPEFusionGPTJ_callback_def block get_node_def Let_def st3_def st1_def
        cfg_def rt_def len_def make_RoPE_def replace_node_def copy_runtime_info_def
        set_friendly_name_def update_node_def)
  have mv: "length (nodes st3) = length (nodes st1) \<and>
      node_op (nodes st3 ! c) = node_op (nodes st1 ! c) \<and>
      length (inputs (nodes st3 ! c)) = length (inputs (nodes st1 ! c)) \<and>
      (inputs (nodes st3 ! c) ! j = inputs (nodes st1 ! c) ! j \<or>
       (c, j) \<in> set (get_target_inputs st1 (fst re, 0)) \<and> node_op (nodes st1 ! c) = ShapeOf \<and>
       inputs (nodes st3 ! c) ! j = v)" for c j
    using move_ShapeOf_nodes [of v "get_target_inputs st1 (fst re, 0)" st1 c j]
    by (simp add: st3_def)
  have p1: "length (nodes st3) = Suc len"
    using mv len1 by simp
  have p2: "node_op (nodes st3 ! len) = RoPE cfg"
    using mv [of len 0] new1 by simp
  have p3: "inputs (nodes st3 ! len) = [v, gsc, gsc]"
  proof (rule nth_equalityI)
    show "length (inputs (nodes st3 ! len)) = length [v, gsc, gsc]"
      using mv [of len 0] new1 by simp
  next
    fix j assume "j < length (inputs (nodes st3 ! len))"
    from mv [of len j] new1 show "inputs (nodes st3 ! len) ! j = [v, gsc, gsc] ! j"
      by auto
  qed
  have p4: "node_op (nodes st3 ! c) = node_op (nodes st ! c)" if "c < len" for c
    using mv [of c 0] old1 [OF that] by simp
  have p5: "inputs (nodes st3 ! c) ! j = (len, snd (inputs (nodes st ! c) ! j))"
    if "c < len" "j < length (inputs (nodes st ! c))" "fst (inputs (nodes st ! c) ! j) = r"
    for c j
  proof -
    have a: "inputs (nodes st1 ! c) ! j = (len, snd (inputs (nodes st ! c) ! j))"
      using that by (simp add: old1 rewire_def)
    from mv [of c j] show ?thesis
    proof (elim conjE disjE)
      assume "inputs (nodes st3 ! c) ! j = inputs (nodes st1 ! c) ! j"
      with a show ?thesis by simp
    next
      assume "(c, j) \<in> set (get_target_inputs st1 (fst re, 0))"
      then have "inputs (nodes st1 ! c) ! j = (fst re, 0)"
        by (simp add: get_target_inputs_iff)
      with a re(2) show ?thesis by (simp add: len_def)
    qed
  qed
  have in1: "fst (inputs (nodes st1 ! c) ! j) \<noteq> r"
    if "c < Suc len" "j < length (inputs (nodes st1 ! c))" for c j
  proof (cases "c < len")
    case True
    with that r(1) show ?thesis
      by (simp add: old1 rewire_def len_def)
  next
    case False
    with that have "c = len" by simp
    with that r new1 show ?thesis
      by (auto simp add: less_Suc_eq nth_Cons')
  qed
  have p6: "fst (inputs (nodes st3 ! c) ! j) \<noteq> r"
    if "c < length (nodes st3)" "j < length (inputs (nodes st3 ! c))" for c j
  proof -
    from that p1 have c: "c < Suc len" by simp
    from that mv [of c j] have j: "j < length (inputs (nodes st1 ! c))" by simp
    from mv [of c j] show ?thesis
    proof (elim conjE disjE)
      assume "inputs (nodes st3 ! c) ! j = inputs (nodes st1 ! c) ! j"
      with in1 [OF c j] show ?thesis by simp
    next
      assume "inputs (nodes st3 ! c) ! j = v"
      with r show ?thesis by simp
    qed
  qed
  define stA where "stA = st\<lparr>nodes := nodes st @
      [\<lparr>node_op = RoPE cfg, inputs = [v, gsc, gsc],
        friendly_name = friendly_name (nodes st ! r), rt_info = rt\<rparr>]\<rparr>"
  have tA: "get_target_inputs stA (fst re, 0) = get_target_inputs st (fst re, 0)"
    unfolding stA_def using inner
    by (intro get_target_inputs_snoc) (simp add: less_Suc_eq nth_Cons' all_conj_distrib)
  have nA: "nodes st1 = map (\<lambda>x. x\<lparr>inputs := map (rewire r len) (inputs x)\<rparr>) (nodes stA)"
    by (simp add: nodes1 stA_def)
  have t1: "get_target_inputs st1 (fst re, 0) = get_target_inputs stA (fst re, 0)"
  proof (rule get_target_inputs_eqI)
    show "length (nodes st1) = length (nodes stA)"
      by (simp add: nA)
  next
    fix c assume "c < length (nodes stA)"
    then show "length (inputs (nodes st1 ! c)) = length (inputs (nodes stA ! c))"
      by (simp add: nA)
  next
    fix c j assume "c < length (nodes stA)" "j < length (inputs (nodes stA ! c))"
    then show "(inputs (nodes st1 ! c) ! j = (fst re, 0)) =
        (inputs (nodes stA ! c) ! j = (fst re, 0))"
      using inner(1) re(2)
      by (cases "inputs (nodes stA ! c) ! j") (auto simp add: nA rewire_def len_def)
  qed
  have tis: "get_target_inputs st1 (fst re, 0) = get_target_inputs st (fst re, 0)"
    using tA t1 by simp
  have ex: "inputs (nodes st3 ! c) ! j =
      (if length (get_target_inputs st (fst re, 0)) = 2 \<and>
          (c, j) \<in> set (get_target_inputs st (fst re, 0)) \<and> is_ShapeOf (nodes st1 ! c)
       then v else inputs (nodes st1 ! c) ! j)"
    if "c < length (nodes st1)" "j < length (inputs (nodes st1 ! c))" for c j
    using move_ShapeOf_exact [OF that, of v "get_target_inputs st (fst re, 0)"]
    by (simp add: st3_def tis del: is_ShapeOf.simps)
  have p7: "length (inputs (nodes st3 ! c)) = length (inputs (nodes st ! c))" if "c < len" for c
    using mv [of c 0] old1 [OF that] by simp
  have p8: "inputs (nodes st3 ! c) ! j =
      (if length (get_target_inputs st (fst re, 0)) = 2 \<and> is_ShapeOf (nodes st ! c) \<and>
          inputs (nodes st ! c) ! j = (fst re, 0)
       then v else rewire r len (inputs (nodes st ! c) ! j))"
    if "c < len" "j < length (inputs (nodes st ! c))" for c j
  proof -
    have a: "c < length (nodes st1)" "j < length (inputs (nodes st1 ! c))"
      using that by (simp_all add: len1 old1)
    have b: "is_ShapeOf (nodes st1 ! c) = is_ShapeOf (nodes st ! c)"
      using old1(1) [OF that(1)] by simp
    have c: "(c, j) \<in> set (get_target_inputs st (fst re, 0)) \<longleftrightarrow>
        inputs (nodes st ! c) ! j = (fst re, 0)"
      using that by (simp add: get_target_inputs_iff len_def)
    have d: "inputs (nodes st1 ! c) ! j = rewire r len (inputs (nodes st ! c) ! j)"
      using that by (simp add: old1)
    show ?thesis
      unfolding ex [OF a] b c d by (auto simp del: is_ShapeOf.simps)
  qed
  have nn1: "new_nodes st1 = new_nodes st"
    by (simp add: st1_def replace_node_def copy_runtime_info_def set_friendly_name_def
        make_RoPE_def update_node_def)
  have p9: "new_nodes st3 = new_nodes st"
    by (simp add: st3_def nn1 move_ShapeOf_new_nodes)
  from cb p1 p2 p3 p4 p5 p6 p7 p8 p9 show ?thesis
    unfolding len_def [symmetric] cfg_def [symmetric] by blast
qed

text \<open>
  C7: take a match of the GPT-J pattern with consistent symbols (\<open>2 * (ndims/2) = ndims\<close>),
  the data input \<open>v\<close>, the table \<open>gsc\<close> and the inner node \<^verbatim>\<open>rotary_emb\<close>,
  which is neither of the two.
  \<^item> If the output of the match root has exactly one target input, the node \<open>t\<close> of that
    input is a \<^verbatim>\<open>Transpose\<close>, and the second input of \<open>t\<close> is a \<^verbatim>\<open>Constant\<close>
    holding \<open>[0, 2, 1, 3]\<close>, then the callback returns true, the fused node has
    \<open>output_trans0213 = true\<close> (with \<open>rotary_ndims = ndims\<close> and
    \<open>is_interleaved = true\<close>), and the node it replaces is the transpose: every input that
    read the transpose reads the fused node afterwards, and no input of the model reads the
    transpose any more.
  \<^item> Otherwise (no or several target inputs, a consumer that is not a \<^verbatim>\<open>Transpose\<close>, or
    a permutation that is not the constant \<open>[0, 2, 1, 3]\<close>) the callback returns true, the
    fused node has \<open>output_trans0213 = false\<close>, and the node it replaces is the match root:
    every input that read the match root reads the fused node afterwards, and no input reads
    the match root any more.
  In both cases exactly one node is added, with the arguments \<open>(v, gsc, gsc)\<close>, no
  operator of the model changes, no node is registered, and every input of the model is
  given exactly: an input that read the replaced node reads the fused node, and every other
  input reads what it read before, with the one exception the callback makes after the
  replacement: when the output of \<^verbatim>\<open>rotary_emb\<close> has two target inputs, those of a
  \<^verbatim>\<open>ShapeOf\<close> are moved to the data input \<open>v\<close>. In particular, in the second case a
  transpose that is not absorbed keeps its consumers. The inputs \<open>v\<close> and \<open>gsc\<close> and the
  node \<^verbatim>\<open>rotary_emb\<close> lie upstream of the replaced node.
\<close>

theorem C7_gptj_output_transpose:
  assumes ndims: "get_symbols m ''ndims'' = SymInt n"
    and half: "get_symbols m ''ndims/2'' = SymInt h" "h * 2 = n"
    and bound: "\<forall>k \<in> set [''varsplit'', ''repeat_interleave_sin'', ''repeat_interleave_cos'',
                           ''neg_Multiply_1177'', ''stack_1182'', ''mul_cos'', ''mul_sin'',
                           ''result'']. get_pattern_value_map m k \<noteq> None"
    and re: "get_pattern_value_map m ''rotary_emb'' = Some re" "fst re < length (nodes st)"
    and v: "get_pattern_value_map m ''view_Reshape'' = Some v"
    and gsc: "get_pattern_value_map m ''gather_sin_cos'' = Some gsc"
    and root: "get_match_root m = root" "root < length (nodes st)"
    and inner: "v \<noteq> (fst re, 0)" "gsc \<noteq> (fst re, 0)"
  shows
    "(get_target_inputs st (root, 0) = [(t, k)] \<and>
      is_Transpose (nodes st ! t) \<and>
      input_value (nodes st ! t) 1 = Some axes \<and> fst axes < length (nodes st) \<and>
      as_Constant (nodes st ! fst axes) = Some c \<and> cast_vector_int64 c = [0, 2, 1, 3] \<and>
      fst v \<noteq> t \<and> fst gsc \<noteq> t \<and> fst re \<noteq> t
      \<longrightarrow>
      (\<exists>st'. RoPEFusionGPTJ_callback st m = Some (True, st') \<and>
         length (nodes st') = Suc (length (nodes st)) \<and>
         node_op (nodes st' ! length (nodes st)) =
           RoPE (default_Config\<lparr>rotary_ndims := n, output_trans0213 := True,
                                is_interleaved := True\<rparr>) \<and>
         inputs (nodes st' ! length (nodes st)) = [v, gsc, gsc] \<and>
         (\<forall>c < length (nodes st). node_op (nodes st' ! c) = node_op (nodes st ! c)) \<and>
         (\<forall>c < length (nodes st). \<forall>j < length (inputs (nodes st ! c)).
            fst (inputs (nodes st ! c) ! j) = t \<longrightarrow>
            inputs (nodes st' ! c) ! j = (length (nodes st), snd (inputs (nodes st ! c) ! j))) \<and>
         (\<forall>c < length (nodes st'). \<forall>j < length (inputs (nodes st' ! c)).
            fst (inputs (nodes st' ! c) ! j) \<noteq> t) \<and>
         (\<forall>c < length (nodes st).
            length (inputs (nodes st' ! c)) = length (inputs (nodes st ! c)) \<and>
            (\<forall>j < length (inputs (nodes st ! c)).
               inputs (nodes st' ! c) ! j =
                 (if length (get_target_inputs st (fst re, 0)) = 2 \<and> is_ShapeOf (nodes st ! c) \<and>
                     inputs (nodes st ! c) ! j = (fst re, 0)
                  then v else rewire t (length (nodes st)) (inputs (nodes st ! c) ! j)))) \<and>
         new_nodes st' = new_nodes st)) \<and>
     ((length (get_target_inputs st (root, 0)) \<noteq> 1 \<or>
       (\<exists>t k. get_target_inputs st (root, 0) = [(t, k)] \<and>
          (\<not> is_Transpose (nodes st ! t) \<or>
           (\<exists>axes. input_value (nodes st ! t) 1 = Some axes \<and> fst axes < length (nodes st) \<and>
              (\<forall>c. as_Constant (nodes st ! fst axes) = Some c \<longrightarrow>
                   cast_vector_int64 c \<noteq> [0, 2, 1, 3]))))) \<and>
      fst v \<noteq> root \<and> fst gsc \<noteq> root \<and> fst re \<noteq> root
      \<longrightarrow>
      (\<exists>st'. RoPEFusionGPTJ_callback st m = Some (True, st') \<and>
         length (nodes st') = Suc (length (nodes st)) \<and>
         node_op (nodes st' ! length (nodes st)) =
           RoPE (default_Config\<lparr>rotary_ndims := n, output_trans0213 := False,
                                is_interleaved := True\<rparr>) \<and>
         inputs (nodes st' ! length (nodes st)) = [v, gsc, gsc] \<and>
         (\<forall>c < length (nodes st). node_op (nodes st' ! c) = node_op (nodes st ! c)) \<and>
         (\<forall>c < length (nodes st). \<forall>j < length (inputs (nodes st ! c)).
            fst (inputs (nodes st ! c) ! j) = root \<longrightarrow>
            inputs (nodes st' ! c) ! j = (length (nodes st), snd (inputs (nodes st ! c) ! j))) \<and>
         (\<forall>c < length (nodes st'). \<forall>j < length (inputs (nodes st' ! c)).
            fst (inputs (nodes st' ! c) ! j) \<noteq> root) \<and>
         (\<forall>c < length (nodes st).
            length (inputs (nodes st' ! c)) = length (inputs (nodes st ! c)) \<and>
            (\<forall>j < length (inputs (nodes st ! c)).
               inputs (nodes st' ! c) ! j =
                 (if length (get_target_inputs st (fst re, 0)) = 2 \<and> is_ShapeOf (nodes st ! c) \<and>
                     inputs (nodes st ! c) ! j = (fst re, 0)
                  then v else rewire root (length (nodes st)) (inputs (nodes st ! c) ! j)))) \<and>
         new_nodes st' = new_nodes st))"
proof (intro conjI impI)
  assume a: "get_target_inputs st (root, 0) = [(t, k)] \<and>
      is_Transpose (nodes st ! t) \<and>
      input_value (nodes st ! t) 1 = Some axes \<and> fst axes < length (nodes st) \<and>
      as_Constant (nodes st ! fst axes) = Some c \<and> cast_vector_int64 c = [0, 2, 1, 3] \<and>
      fst v \<noteq> t \<and> fst gsc \<noteq> t \<and> fst re \<noteq> t"
  then have "(t, k) \<in> set (get_target_inputs st (root, 0))" by simp
  then have t: "t < length (nodes st)" by (simp add: get_target_inputs_iff)
  have block: "fuse_output_transpose st cfg rt (get_match_root m) =
      Some (cfg\<lparr>output_trans0213 := True\<rparr>, rt @ [t], t)" for cfg rt
    using a fuse_output_transpose_absorb [of st root t k axes c cfg rt]
    by (simp add: root del: as_Constant.simps is_Transpose.simps)
  from a have up: "fst v \<noteq> t" "fst gsc \<noteq> t" "fst re \<noteq> t" by simp_all
  from gptj_callback_result [OF ndims half bound re v gsc _ block t up inner] root
  show "(\<exists>st'. RoPEFusionGPTJ_callback st m = Some (True, st') \<and>
         length (nodes st') = Suc (length (nodes st)) \<and>
         node_op (nodes st' ! length (nodes st)) =
           RoPE (default_Config\<lparr>rotary_ndims := n, output_trans0213 := True,
                                is_interleaved := True\<rparr>) \<and>
         inputs (nodes st' ! length (nodes st)) = [v, gsc, gsc] \<and>
         (\<forall>c < length (nodes st). node_op (nodes st' ! c) = node_op (nodes st ! c)) \<and>
         (\<forall>c < length (nodes st). \<forall>j < length (inputs (nodes st ! c)).
            fst (inputs (nodes st ! c) ! j) = t \<longrightarrow>
            inputs (nodes st' ! c) ! j = (length (nodes st), snd (inputs (nodes st ! c) ! j))) \<and>
         (\<forall>c < length (nodes st'). \<forall>j < length (inputs (nodes st' ! c)).
            fst (inputs (nodes st' ! c) ! j) \<noteq> t) \<and>
         (\<forall>c < length (nodes st).
            length (inputs (nodes st' ! c)) = length (inputs (nodes st ! c)) \<and>
            (\<forall>j < length (inputs (nodes st ! c)).
               inputs (nodes st' ! c) ! j =
                 (if length (get_target_inputs st (fst re, 0)) = 2 \<and> is_ShapeOf (nodes st ! c) \<and>
                     inputs (nodes st ! c) ! j = (fst re, 0)
                  then v else rewire t (length (nodes st)) (inputs (nodes st ! c) ! j)))) \<and>
         new_nodes st' = new_nodes st)"
    by simp
next
  assume a: "(length (get_target_inputs st (root, 0)) \<noteq> 1 \<or>
       (\<exists>t k. get_target_inputs st (root, 0) = [(t, k)] \<and>
          (\<not> is_Transpose (nodes st ! t) \<or>
           (\<exists>axes. input_value (nodes st ! t) 1 = Some axes \<and> fst axes < length (nodes st) \<and>
              (\<forall>c. as_Constant (nodes st ! fst axes) = Some c \<longrightarrow>
                   cast_vector_int64 c \<noteq> [0, 2, 1, 3]))))) \<and>
      fst v \<noteq> root \<and> fst gsc \<noteq> root \<and> fst re \<noteq> root"
  have block: "fuse_output_transpose st cfg rt (get_match_root m) =
      Some (id cfg, rt @ [], root)" for cfg rt
    using a fuse_output_transpose_keep [of st root cfg rt]
    by (simp add: root del: as_Constant.simps is_Transpose.simps)
  have cfg: "(id (default_Config\<lparr>rotary_ndims := n\<rparr>))\<lparr>is_interleaved := True\<rparr> =
      default_Config\<lparr>rotary_ndims := n, output_trans0213 := False, is_interleaved := True\<rparr>"
    by (simp add: default_Config_def)
  from a have up: "fst v \<noteq> root" "fst gsc \<noteq> root" "fst re \<noteq> root" by simp_all
  from gptj_callback_result [OF ndims half bound re v gsc _ block root(2) up inner] root
  show "(\<exists>st'. RoPEFusionGPTJ_callback st m = Some (True, st') \<and>
         length (nodes st') = Suc (length (nodes st)) \<and>
         node_op (nodes st' ! length (nodes st)) =
           RoPE (default_Config\<lparr>rotary_ndims := n, output_trans0213 := False,
                                is_interleaved := True\<rparr>) \<and>
         inputs (nodes st' ! length (nodes st)) = [v, gsc, gsc] \<and>
         (\<forall>c < length (nodes st). node_op (nodes st' ! c) = node_op (nodes st ! c)) \<and>
         (\<forall>c < length (nodes st). \<forall>j < length (inputs (nodes st ! c)).
            fst (inputs (nodes st ! c) ! j) = root \<longrightarrow>
            inputs (nodes st' ! c) ! j = (length (nodes st), snd (inputs (nodes st ! c) ! j))) \<and>
         (\<forall>c < length (nodes st'). \<forall>j < length (inputs (nodes st' ! c)).
            fst (inputs (nodes st' ! c) ! j) \<noteq> root) \<and>
         (\<forall>c < length (nodes st).
            length (inputs (nodes st' ! c)) = length (inputs (nodes st ! c)) \<and>
            (\<forall>j < length (inputs (nodes st ! c)).
               inputs (nodes st' ! c) ! j =
                 (if length (get_target_inputs st (fst re, 0)) = 2 \<and> is_ShapeOf (nodes st ! c) \<and>
                     inputs (nodes st ! c) ! j = (fst re, 0)
                  then v else rewire root (length (nodes st)) (inputs (nodes st ! c) ! j)))) \<and>
         new_nodes st' = new_nodes st)"
    unfolding cfg by simp
qed

lemma gptj_state_facts:
  "length (nodes (gptj_state axes)) = 20"
  "nodes (gptj_state axes) ! 18 =
     \<lparr>node_op = Transpose, inputs = [(16, 0), (17, 0)], friendly_name = ''permute'',
      rt_info = []\<rparr>"
  "nodes (gptj_state axes) ! 17 = const_node (i64_const axes)"
  "nodes (gptj_state axes) ! 19 = plain_node ''Result'' [(18, 0)]"
  by (simp_all add: gptj_state_def)

lemma gptj_state_consumers:
  "get_target_inputs (gptj_state axes) (16, 0) = [(18, 0)]"
  by (simp add: gptj_state_def get_target_inputs_def plain_node_def const_node_def
      upt_conv_Cons)

lemma gptj_shapeof_state_facts:
  "length (nodes (gptj_shapeof_state axes)) = 21"
  "nodes (gptj_shapeof_state axes) ! 18 =
     \<lparr>node_op = Transpose, inputs = [(16, 0), (17, 0)], friendly_name = ''permute'',
      rt_info = []\<rparr>"
  "nodes (gptj_shapeof_state axes) ! 17 = const_node (i64_const axes)"
  "nodes (gptj_shapeof_state axes) ! 19 = plain_node ''Result'' [(18, 0)]"
  "nodes (gptj_shapeof_state axes) ! 20 =
     \<lparr>node_op = ShapeOf, inputs = [(15, 0)], friendly_name = ''shape'', rt_info = []\<rparr>"
  by (simp_all add: gptj_shapeof_state_def gptj_state_def)

lemma gptj_shapeof_state_consumers:
  "get_target_inputs (gptj_shapeof_state axes) (16, 0) = [(18, 0)]"
  "get_target_inputs (gptj_shapeof_state axes) (15, 0) = [(16, 0), (20, 0)]"
  by (simp_all add: gptj_shapeof_state_def gptj_state_def get_target_inputs_def plain_node_def
      const_node_def upt_conv_Cons)

theorem C7_gptj_output_transpose_witness:
  "(\<exists>st'. RoPEFusionGPTJ_callback (gptj_state [0, 2, 1, 3]) (gptj_match 64 32) = Some (True, st') \<and>
      node_op (nodes st' ! 20) =
        RoPE (default_Config\<lparr>rotary_ndims := 64, output_trans0213 := True,
                             is_interleaved := True\<rparr>) \<and>
      inputs (nodes st' ! 20) = [(0, 0), (1, 0), (1, 0)] \<and>
      inputs (nodes st' ! 19) ! 0 = (20, 0)) \<and>
   (\<exists>st'. RoPEFusionGPTJ_callback (gptj_state [0, 1, 2, 3]) (gptj_match 64 32) = Some (True, st') \<and>
      node_op (nodes st' ! 20) =
        RoPE (default_Config\<lparr>rotary_ndims := 64, output_trans0213 := False,
                             is_interleaved := True\<rparr>) \<and>
      inputs (nodes st' ! 20) = [(0, 0), (1, 0), (1, 0)] \<and>
      inputs (nodes st' ! 18) ! 0 = (20, 0) \<and>
      inputs (nodes st' ! 18) ! 1 = (17, 0) \<and>
      inputs (nodes st' ! 19) ! 0 = (18, 0)) \<and>
   (\<exists>st'. RoPEFusionGPTJ_callback (gptj_shapeof_state [0, 2, 1, 3]) (gptj_match 64 32) =
        Some (True, st') \<and>
      node_op (nodes st' ! 21) =
        RoPE (default_Config\<lparr>rotary_ndims := 64, output_trans0213 := True,
                             is_interleaved := True\<rparr>) \<and>
      inputs (nodes st' ! 21) = [(0, 0), (1, 0), (1, 0)] \<and>
      inputs (nodes st' ! 19) ! 0 = (21, 0) \<and>
      inputs (nodes st' ! 20) ! 0 = (0, 0))"
proof -
  note f = gptj_state_facts gptj_state_consumers
  note g = gptj_shapeof_state_facts gptj_shapeof_state_consumers
  have m: "get_symbols (gptj_match 64 32) ''ndims'' = SymInt 64"
    "get_symbols (gptj_match 64 32) ''ndims/2'' = SymInt 32"
    "\<forall>k \<in> set [''varsplit'', ''repeat_interleave_sin'', ''repeat_interleave_cos'',
                ''neg_Multiply_1177'', ''stack_1182'', ''mul_cos'', ''mul_sin'',
                ''result'']. get_pattern_value_map (gptj_match 64 32) k \<noteq> None"
    "get_pattern_value_map (gptj_match 64 32) ''rotary_emb'' = Some (15, 0)"
    "get_pattern_value_map (gptj_match 64 32) ''view_Reshape'' = Some (0, 0)"
    "get_pattern_value_map (gptj_match 64 32) ''gather_sin_cos'' = Some (1, 0)"
    "get_match_root (gptj_match 64 32) = 16"
    by (simp_all add: gptj_match_def)
  have w: "(32 :: 64 word) * 2 = 64" by simp
  have v: "fst (15 :: nat, 0 :: nat) < length (nodes (gptj_state perm))"
    "16 < length (nodes (gptj_state perm))"
    "fst (15 :: nat, 0 :: nat) < length (nodes (gptj_shapeof_state perm))"
    "16 < length (nodes (gptj_shapeof_state perm))" for perm
    by (simp_all add: f g)
  have i: "(0 :: nat, 0 :: nat) \<noteq> (fst (15 :: nat, 0 :: nat), 0)"
    "(1 :: nat, 0 :: nat) \<noteq> (fst (15 :: nat, 0 :: nat), 0)"
    by simp_all
  have 1: "\<exists>st'. RoPEFusionGPTJ_callback (gptj_state [0, 2, 1, 3]) (gptj_match 64 32) =
        Some (True, st') \<and>
      node_op (nodes st' ! 20) =
        RoPE (default_Config\<lparr>rotary_ndims := 64, output_trans0213 := True,
                             is_interleaved := True\<rparr>) \<and>
      inputs (nodes st' ! 20) = [(0, 0), (1, 0), (1, 0)] \<and>
      inputs (nodes st' ! 19) ! 0 = (20, 0)"
  proof -
    let ?s = "gptj_state [0, 2, 1, 3]"
    have ante: "get_target_inputs ?s (16, 0) = [(18, 0)] \<and>
      is_Transpose (nodes ?s ! 18) \<and>
      input_value (nodes ?s ! 18) 1 = Some (17, 0) \<and>
      fst (17 :: nat, 0 :: nat) < length (nodes ?s) \<and>
      as_Constant (nodes ?s ! fst (17 :: nat, 0 :: nat)) = Some (i64_const [0, 2, 1, 3]) \<and>
      cast_vector_int64 (i64_const [0, 2, 1, 3]) = [0, 2, 1, 3] \<and>
      fst (0 :: nat, 0 :: nat) \<noteq> 18 \<and> fst (1 :: nat, 0 :: nat) \<noteq> 18 \<and>
      fst (15 :: nat, 0 :: nat) \<noteq> 18"
      by (simp add: f input_value_def const_node_def i64_const_def)
    from C7_gptj_output_transpose [OF m(1) m(2) w m(3) m(4) v(1) [of "[0, 2, 1, 3]"]
        m(5) m(6) m(7) v(2) [of "[0, 2, 1, 3]"] i, where t = 18 and k = 0 and axes = "(17, 0)"
        and c = "i64_const [0, 2, 1, 3]", THEN conjunct1, rule_format, OF ante]
    obtain st' where r:
      "RoPEFusionGPTJ_callback ?s (gptj_match 64 32) = Some (True, st')"
      "node_op (nodes st' ! length (nodes ?s)) =
        RoPE (default_Config\<lparr>rotary_ndims := 64, output_trans0213 := True,
                             is_interleaved := True\<rparr>)"
      "inputs (nodes st' ! length (nodes ?s)) = [(0, 0), (1, 0), (1, 0)]"
      "\<forall>c < length (nodes ?s).
         length (inputs (nodes st' ! c)) = length (inputs (nodes ?s ! c)) \<and>
         (\<forall>j < length (inputs (nodes ?s ! c)).
            inputs (nodes st' ! c) ! j =
              (if length (get_target_inputs ?s (fst (15 :: nat, 0 :: nat), 0)) = 2 \<and>
                  is_ShapeOf (nodes ?s ! c) \<and>
                  inputs (nodes ?s ! c) ! j = (fst (15 :: nat, 0 :: nat), 0)
               then (0, 0) else rewire 18 (length (nodes ?s)) (inputs (nodes ?s ! c) ! j)))"
      by blast
    from r(4) [rule_format, of 19, THEN conjunct2, rule_format, of 0]
    have "inputs (nodes st' ! 19) ! 0 = (20, 0)"
      by (simp add: f plain_node_def rewire_def)
    with r show ?thesis by (simp add: f)
  qed
  have 2: "\<exists>st'. RoPEFusionGPTJ_callback (gptj_state [0, 1, 2, 3]) (gptj_match 64 32) =
        Some (True, st') \<and>
      node_op (nodes st' ! 20) =
        RoPE (default_Config\<lparr>rotary_ndims := 64, output_trans0213 := False,
                             is_interleaved := True\<rparr>) \<and>
      inputs (nodes st' ! 20) = [(0, 0), (1, 0), (1, 0)] \<and>
      inputs (nodes st' ! 18) ! 0 = (20, 0) \<and>
      inputs (nodes st' ! 18) ! 1 = (17, 0) \<and>
      inputs (nodes st' ! 19) ! 0 = (18, 0)"
  proof -
    let ?s = "gptj_state [0, 1, 2, 3]"
    have ante: "(length (get_target_inputs ?s (16, 0)) \<noteq> 1 \<or>
       (\<exists>t k. get_target_inputs ?s (16, 0) = [(t, k)] \<and>
          (\<not> is_Transpose (nodes ?s ! t) \<or>
           (\<exists>axes. input_value (nodes ?s ! t) 1 = Some axes \<and>
              fst axes < length (nodes ?s) \<and>
              (\<forall>c. as_Constant (nodes ?s ! fst axes) = Some c \<longrightarrow>
                   cast_vector_int64 c \<noteq> [0, 2, 1, 3]))))) \<and>
      fst (0 :: nat, 0 :: nat) \<noteq> 16 \<and> fst (1 :: nat, 0 :: nat) \<noteq> 16 \<and>
      fst (15 :: nat, 0 :: nat) \<noteq> 16"
      by (simp add: f input_value_def const_node_def i64_const_def)
    from C7_gptj_output_transpose [OF m(1) m(2) w m(3) m(4) v(1) [of "[0, 1, 2, 3]"]
        m(5) m(6) m(7) v(2) [of "[0, 1, 2, 3]"] i, THEN conjunct2, rule_format, OF ante]
    obtain st' where r:
      "RoPEFusionGPTJ_callback ?s (gptj_match 64 32) = Some (True, st')"
      "node_op (nodes st' ! length (nodes ?s)) =
        RoPE (default_Config\<lparr>rotary_ndims := 64, output_trans0213 := False,
                             is_interleaved := True\<rparr>)"
      "inputs (nodes st' ! length (nodes ?s)) = [(0, 0), (1, 0), (1, 0)]"
      "\<forall>c < length (nodes ?s).
         length (inputs (nodes st' ! c)) = length (inputs (nodes ?s ! c)) \<and>
         (\<forall>j < length (inputs (nodes ?s ! c)).
            inputs (nodes st' ! c) ! j =
              (if length (get_target_inputs ?s (fst (15 :: nat, 0 :: nat), 0)) = 2 \<and>
                  is_ShapeOf (nodes ?s ! c) \<and>
                  inputs (nodes ?s ! c) ! j = (fst (15 :: nat, 0 :: nat), 0)
               then (0, 0) else rewire 16 (length (nodes ?s)) (inputs (nodes ?s ! c) ! j)))"
      by blast
    from r(4) [rule_format, of 18, THEN conjunct2, rule_format, of 0]
    have a: "inputs (nodes st' ! 18) ! 0 = (20, 0)"
      by (simp add: f rewire_def)
    from r(4) [rule_format, of 18, THEN conjunct2, rule_format, of 1]
    have b: "inputs (nodes st' ! 18) ! 1 = (17, 0)"
      by (simp add: f rewire_def)
    from r(4) [rule_format, of 19, THEN conjunct2, rule_format, of 0]
    have c: "inputs (nodes st' ! 19) ! 0 = (18, 0)"
      by (simp add: f plain_node_def rewire_def)
    from r a b c show ?thesis by (simp add: f)
  qed
  have 3: "\<exists>st'. RoPEFusionGPTJ_callback (gptj_shapeof_state [0, 2, 1, 3]) (gptj_match 64 32) =
        Some (True, st') \<and>
      node_op (nodes st' ! 21) =
        RoPE (default_Config\<lparr>rotary_ndims := 64, output_trans0213 := True,
                             is_interleaved := True\<rparr>) \<and>
      inputs (nodes st' ! 21) = [(0, 0), (1, 0), (1, 0)] \<and>
      inputs (nodes st' ! 19) ! 0 = (21, 0) \<and>
      inputs (nodes st' ! 20) ! 0 = (0, 0)"
  proof -
    let ?s = "gptj_shapeof_state [0, 2, 1, 3]"
    have ante: "get_target_inputs ?s (16, 0) = [(18, 0)] \<and>
      is_Transpose (nodes ?s ! 18) \<and>
      input_value (nodes ?s ! 18) 1 = Some (17, 0) \<and>
      fst (17 :: nat, 0 :: nat) < length (nodes ?s) \<and>
      as_Constant (nodes ?s ! fst (17 :: nat, 0 :: nat)) = Some (i64_const [0, 2, 1, 3]) \<and>
      cast_vector_int64 (i64_const [0, 2, 1, 3]) = [0, 2, 1, 3] \<and>
      fst (0 :: nat, 0 :: nat) \<noteq> 18 \<and> fst (1 :: nat, 0 :: nat) \<noteq> 18 \<and>
      fst (15 :: nat, 0 :: nat) \<noteq> 18"
      by (simp add: g input_value_def const_node_def i64_const_def)
    from C7_gptj_output_transpose [OF m(1) m(2) w m(3) m(4) v(3) [of "[0, 2, 1, 3]"]
        m(5) m(6) m(7) v(4) [of "[0, 2, 1, 3]"] i, where t = 18 and k = 0 and axes = "(17, 0)"
        and c = "i64_const [0, 2, 1, 3]", THEN conjunct1, rule_format, OF ante]
    obtain st' where r:
      "RoPEFusionGPTJ_callback ?s (gptj_match 64 32) = Some (True, st')"
      "node_op (nodes st' ! length (nodes ?s)) =
        RoPE (default_Config\<lparr>rotary_ndims := 64, output_trans0213 := True,
                             is_interleaved := True\<rparr>)"
      "inputs (nodes st' ! length (nodes ?s)) = [(0, 0), (1, 0), (1, 0)]"
      "\<forall>c < length (nodes ?s).
         length (inputs (nodes st' ! c)) = length (inputs (nodes ?s ! c)) \<and>
         (\<forall>j < length (inputs (nodes ?s ! c)).
            inputs (nodes st' ! c) ! j =
              (if length (get_target_inputs ?s (fst (15 :: nat, 0 :: nat), 0)) = 2 \<and>
                  is_ShapeOf (nodes ?s ! c) \<and>
                  inputs (nodes ?s ! c) ! j = (fst (15 :: nat, 0 :: nat), 0)
               then (0, 0) else rewire 18 (length (nodes ?s)) (inputs (nodes ?s ! c) ! j)))"
      by blast
    from r(4) [rule_format, of 19, THEN conjunct2, rule_format, of 0]
    have a: "inputs (nodes st' ! 19) ! 0 = (21, 0)"
      by (simp add: g plain_node_def rewire_def)
    from r(4) [rule_format, of 20, THEN conjunct2, rule_format, of 0]
    have b: "inputs (nodes st' ! 20) ! 0 = (0, 0)"
      by (simp add: g)
    from r a b show ?thesis by (simp add: g)
  qed
  from 1 2 3 show ?thesis by blast
qed

subsection \<open>RoPEFusionQwen\<close>

text \<open>
  X2: on a match of the Qwen pattern whose symbols are integers with
  \<open>2 * (head_size/2) = head_size\<close> and \<open>head_cnt * head_size\<close> equal to the symbol of
  the product, the callback of RoPEFusionQwen returns true and adds one RoPE node with
  \<open>is_qwen\<close> set, \<open>head_cnt\<close> and \<open>head_size\<close> from the symbols,
  \<open>rotary_ndims = head_size\<close>, and the slice window
  \<open>[0, head_cnt * head_size)\<close> for the query (split output 0) and
  \<open>[head_cnt * head_size, 2 * head_cnt * head_size)\<close> for the key. Its arguments are the
  projection and the two rotary tables; when position ids were matched they are the fourth
  argument and \<open>gather_position_arg_id\<close> is 3. Every input that read the root reads the
  new node afterwards, no other input and no operator changes, and no node is registered.
\<close>

theorem qwen_fuses_with_config:
  assumes symbols: "get_symbols m ''head_cnt'' = SymInt hc"
      "get_symbols m ''head_size'' = SymInt hs"
      "get_symbols m ''head_size/2'' = SymInt hs_half"
      "get_symbols m ''head_cnt*head_size'' = SymInt hc_by_hs"
      "hs_half * 2 = hs" "hc * hs = hc_by_hs"
    and args: "get_pattern_value_map m ''qkv_proj'' = Some qkv_proj"
      "get_pattern_value_map m ''rotary_emb_cos'' = Some rotary_emb_cos"
      "get_pattern_value_map m ''rotary_emb_sin'' = Some rotary_emb_sin"
    and bound: "\<forall>k \<in> set [''Multiply_567527'', ''cat_Concat_593'', ''mul_Multiply_594'',
                           ''result'']. get_pattern_value_map m k \<noteq> None"
    and positions: "case get_pattern_value_map m ''position_ids'' of
                      None \<Rightarrow> get_pattern_value_map m ''ListUnpack_586_Squeeze_0'' \<noteq> None \<and>
                              get_pattern_value_map m ''ListUnpack_586_Squeeze'' \<noteq> None
                    | Some p \<Rightarrow> get_pattern_value_map m ''ListUnpack_Squeeze_0_1'' \<noteq> None \<and>
                                get_pattern_value_map m ''ListUnpack_Squeeze_1'' \<noteq> None \<and>
                                fst p \<noteq> get_match_root m"
    and root: "get_match_root m < length (nodes st)"
    and upstream: "fst qkv_proj \<noteq> get_match_root m" "fst rotary_emb_cos \<noteq> get_match_root m"
      "fst rotary_emb_sin \<noteq> get_match_root m"
  shows "\<exists>st'. RoPEFusionQwen_callback split_output_id st m = Some (True, st') \<and>
           length (nodes st') = Suc (length (nodes st)) \<and>
           node_op (nodes st' ! length (nodes st)) =
             RoPE (default_Config
                    \<lparr>is_qwen := True, head_cnt := hc, head_size := hs, rotary_ndims := hs,
                     slice_start := (if split_output_id = 0 then 0 else hc * hs),
                     slice_stop := (if split_output_id = 0 then hc * hs else hc * hs + hc * hs),
                     gather_position_arg_id :=
                       (if get_pattern_value_map m ''position_ids'' = None then 0 else 3)\<rparr>) \<and>
           inputs (nodes st' ! length (nodes st)) =
             [qkv_proj, rotary_emb_cos, rotary_emb_sin] @
             (case get_pattern_value_map m ''position_ids'' of None \<Rightarrow> [] | Some p \<Rightarrow> [p]) \<and>
           (\<forall>c < length (nodes st).
              node_op (nodes st' ! c) = node_op (nodes st ! c) \<and>
              inputs (nodes st' ! c) =
                map (rewire (get_match_root m) (length (nodes st))) (inputs (nodes st ! c))) \<and>
           new_nodes st' = new_nodes st"
proof -
  from bound obtain a b c d where bd:
    "get_pattern_value_map m ''Multiply_567527'' = Some a"
    "get_pattern_value_map m ''cat_Concat_593'' = Some b"
    "get_pattern_value_map m ''mul_Multiply_594'' = Some c"
    "get_pattern_value_map m ''result'' = Some d"
    by auto
  show ?thesis
  proof (cases "get_pattern_value_map m ''position_ids''")
    case None
    with positions obtain e f where
      "get_pattern_value_map m ''ListUnpack_586_Squeeze_0'' = Some e"
      "get_pattern_value_map m ''ListUnpack_586_Squeeze'' = Some f"
      by auto
    with None symbols args bd root upstream show ?thesis
      by (auto simp add: RoPEFusionQwen_callback_def count_def get_node_def make_RoPE_def
          set_friendly_name_def copy_runtime_info_def replace_node_def update_node_def
          rewire_def nth_append Let_def default_Config_def)
  next
    case (Some p)
    with positions obtain e f where
      "get_pattern_value_map m ''ListUnpack_Squeeze_0_1'' = Some e"
      "get_pattern_value_map m ''ListUnpack_Squeeze_1'' = Some f" "fst p \<noteq> get_match_root m"
      by auto
    with Some symbols args bd root upstream show ?thesis
      by (auto simp add: RoPEFusionQwen_callback_def count_def get_node_def make_RoPE_def
          set_friendly_name_def copy_runtime_info_def replace_node_def update_node_def
          rewire_def nth_append Let_def default_Config_def)
  qed
qed

theorem qwen_fuses_with_config_witness:
  "\<exists>st'. RoPEFusionQwen_callback 1 qwen_state (qwen_match 32 128 64 4096) = Some (True, st') \<and>
         node_op (nodes st' ! length (nodes qwen_state)) =
           RoPE (default_Config
                  \<lparr>is_qwen := True, head_cnt := 32, head_size := 128, rotary_ndims := 128,
                   slice_start := 4096, slice_stop := 8192, gather_position_arg_id := 0\<rparr>) \<and>
         inputs (nodes st' ! length (nodes qwen_state)) = [(0, 0), (1, 0), (2, 0)] \<and>
         inputs (nodes st' ! 17) = [(length (nodes qwen_state), 0)]"
proof -
  have root: "get_match_root (qwen_match 32 128 64 4096) < length (nodes qwen_state)"
    by (simp add: qwen_match_def qwen_state_def)
  have m: "get_match_root (qwen_match 32 128 64 4096) = 16"
    by (simp add: qwen_match_def)
  have res: "17 < length (nodes qwen_state)" "inputs (nodes qwen_state ! 17) = [(16, 0)]"
    by (simp_all add: qwen_state_def plain_node_def)
  from qwen_fuses_with_config [where m = "qwen_match 32 128 64 4096" and st = qwen_state
      and split_output_id = 1 and hc = 32 and hs = 128 and hs_half = 64 and hc_by_hs = 4096
      and qkv_proj = "(0, 0)" and rotary_emb_cos = "(1, 0)" and rotary_emb_sin = "(2, 0)",
      OF _ _ _ _ _ _ _ _ _ _ _ root]
  obtain st' where r:
    "RoPEFusionQwen_callback 1 qwen_state (qwen_match 32 128 64 4096) = Some (True, st')"
    "node_op (nodes st' ! length (nodes qwen_state)) =
           RoPE (default_Config
                  \<lparr>is_qwen := True, head_cnt := 32, head_size := 128, rotary_ndims := 128,
                   slice_start := 4096, slice_stop := 8192, gather_position_arg_id := 0\<rparr>)"
    "inputs (nodes st' ! length (nodes qwen_state)) = [(0, 0), (1, 0), (2, 0)]"
    "\<forall>c < length (nodes qwen_state).
        node_op (nodes st' ! c) = node_op (nodes qwen_state ! c) \<and>
        inputs (nodes st' ! c) =
          map (rewire 16 (length (nodes qwen_state))) (inputs (nodes qwen_state ! c))"
    by (auto simp add: qwen_match_def)
  from r(4) [rule_format, OF res(1)] have "inputs (nodes st' ! 17) = [(length (nodes qwen_state), 0)]"
    by (simp add: res(2) rewire_def)
  with r show ?thesis by blast
qed

end
